theory Spec2Isabelle
  imports Main "HOL-Library.Word"
begin

section \<open>Python values and the object store\<close>

text \<open>
  The worker's datasets hold Python values. The model keeps the kinds of value that
  \<^verbatim>\<open>worker_db.py\<close> tells apart: \<^verbatim>\<open>None\<close>, \<^verbatim>\<open>bool\<close>, the unbounded \<^verbatim>\<open>int\<close>,
  \<^verbatim>\<open>float\<close> (carried as its 64-bit pattern), \<^verbatim>\<open>str\<close> (a sequence of Unicode code
  points, which is what \<^verbatim>\<open>len\<close> counts), \<^verbatim>\<open>bytes\<close>, the numpy fixed-width scalars
  (the value of an integer, the bit pattern of a float), tuples, references to
  mutable containers (lists and numpy arrays live in the store, so that two mappings
  can share one container), and instances of any other type, carried with the name
  of their type and taken to have no item assignment.
\<close>

type_synonym addr = nat
type_synonym codepoint = nat

datatype np_type =
    np_int8 | np_int16 | np_int32 | np_int64
  | np_uint8 | np_uint16 | np_uint32 | np_uint64
  | np_float16 | np_float32 | np_float64
  | np_other string

datatype pyval =
    PNone
  | PBool bool
  | PInt int
  | PFloat "64 word"
  | PStr "codepoint list"
  | PBytes "8 word list"
  | PNp np_type int
  | PTuple "pyval list"
  | PRef addr
  | PObj string

datatype container = ListObj "pyval list" | ArrayObj np_type "pyval list"

type_synonym heap = "addr \<Rightarrow> container"

text \<open>
  The exceptions the module raises or meets. \<^verbatim>\<open>FileNotFoundError\<close> is kept apart
  from the other operating-system errors because \<^verbatim>\<open>_last_rid\<close> catches it alone;
  \<^verbatim>\<open>H5Error\<close> is the container library refusing to create a dataset;
  \<^verbatim>\<open>ImportError\<close> and \<^verbatim>\<open>ConnectionError\<close> stand for what building a device can raise.
\<close>

datatype error =
    KeyError
  | IndexError
  | TypeError
  | ValueError
  | OverflowError
  | UnicodeEncodeError
  | FileNotFoundError
  | OSError
  | H5Error
  | ImportError
  | ConnectionError

fun elems :: "container \<Rightarrow> pyval list" where
  "elems (ListObj xs) = xs"
| "elems (ArrayObj t xs) = xs"

text \<open>
  \<^verbatim>\<open>xs[i] = v\<close> on a Python list with an integer index: a negative index counts
  from the end, an index out of range raises \<^verbatim>\<open>IndexError\<close>, the value is stored as
  it is and the length never changes. The index is an integer throughout: slices are
  not among the indices of the model.
\<close>

definition list_setitem :: "pyval list \<Rightarrow> int \<Rightarrow> pyval \<Rightarrow> error + pyval list" where
  "list_setitem xs i v =
     (let n = int (length xs);
          j = (if i < 0 then i + n else i)
      in if 0 \<le> j \<and> j < n then Inr (xs[nat j := v]) else Inl IndexError)"

text \<open>
  \<^verbatim>\<open>a[i] = v\<close> on a numpy array is the business of numpy: it converts \<^verbatim>\<open>v\<close> to
  the element type of the array, or raises. The model takes it as a parameter: given
  the element type, the elements, the index and the value, the new elements or the
  exception. An array is taken to own its elements (it is not a view of another one).
\<close>

type_synonym numpy_setitem = "np_type \<Rightarrow> pyval list \<Rightarrow> int \<Rightarrow> pyval \<Rightarrow> error + pyval list"

definition container_setitem ::
  "numpy_setitem \<Rightarrow> container \<Rightarrow> int \<Rightarrow> pyval \<Rightarrow> error + container" where
  "container_setitem np c i v =
     (case c of
        ListObj xs \<Rightarrow>
          (case list_setitem xs i v of
             Inl e \<Rightarrow> Inl e
           | Inr ys \<Rightarrow> Inr (ListObj ys))
      | ArrayObj t xs \<Rightarrow>
          (case np t xs i v of
             Inl e \<Rightarrow> Inl e
           | Inr ys \<Rightarrow> Inr (ArrayObj t ys)))"

text \<open>
  \<^verbatim>\<open>obj[i] = v\<close> on any value: only a reference to a container supports item
  assignment; on every other value Python raises (\<^verbatim>\<open>TypeError\<close>: object does not
  support item assignment).
\<close>

definition py_setitem ::
  "numpy_setitem \<Rightarrow> heap \<Rightarrow> pyval \<Rightarrow> int \<Rightarrow> pyval \<Rightarrow> error + heap" where
  "py_setitem np h obj i v =
     (case obj of
        PRef a \<Rightarrow>
          (case container_setitem np (h a) i v of
             Inl e \<Rightarrow> Inl e
           | Inr c \<Rightarrow> Inr (h(a := c)))
      | _ \<Rightarrow> Inl TypeError)"

section \<open>DatasetManager\<close>

text \<open>
  Modelled from the spec: the \<^verbatim>\<open>Notifier\<close> of \<^verbatim>\<open>artiq.protocols.sync_struct\<close>
  wrapping the broadcast dictionary is not among the sources. By the spec a write to
  the broadcast mapping is stored in the mapping and forwarded to the publish
  collaborator (\<^verbatim>\<open>ddb.update\<close>). The model keeps the backing dictionary
  (\<^verbatim>\<open>self.broadcast.read\<close>) as \<open>broadcast\<close> and the forwarded modifications, in
  order, as \<open>published\<close>. A modification names the path of the modified structure
  below the root, the key or index written, and the value written.
\<close>

datatype path_elem = PKey string | PIdx int

record notifier_mod =
  mod_path :: "path_elem list"
  mod_key :: path_elem
  mod_value :: pyval

text \<open>
  The state of a \<^verbatim>\<open>DatasetManager\<close>: its two dictionaries, the modifications
  published so far, and the object store that holds the containers the dictionaries
  refer to.
\<close>

record DatasetManager =
  local :: "string \<rightharpoonup> pyval"
  broadcast :: "string \<rightharpoonup> (bool \<times> pyval)"
  published :: "notifier_mod list"
  heap :: heap

definition DatasetManager_init :: "heap \<Rightarrow> DatasetManager" where
  "DatasetManager_init h =
     \<lparr>local = Map.empty, broadcast = Map.empty, published = [], heap = h\<rparr>"

text \<open>
  \<^verbatim>\<open>
  def set(self, key, value, broadcast=False, persist=False, save=True):
      if persist:
          broadcast = True
      if broadcast:
          self.broadcast[key] = persist, value
      if save:
          self.local[key] = value
  \<close>
\<close>

definition DatasetManager_set ::
  "DatasetManager \<Rightarrow> string \<Rightarrow> pyval \<Rightarrow> bool \<Rightarrow> bool \<Rightarrow> bool \<Rightarrow> DatasetManager" where
  "DatasetManager_set self key v broadcast_arg persist save =
     (let bc = (if persist then True else broadcast_arg);
          self1 = (if bc
                   then self\<lparr>broadcast := (broadcast self)(key \<mapsto> (persist, v)),
                             published := published self @
                               [\<lparr>mod_path = [], mod_key = PKey key,
                                 mod_value = PTuple [PBool persist, v]\<rparr>]\<rparr>
                   else self)
      in if save then self1\<lparr>local := (local self1)(key \<mapsto> v)\<rparr> else self1)"

text \<open>
  \<^verbatim>\<open>
  def mutate(self, key, index, value):
      target = None
      if key in self.local:
          target = self.local[key]
      if key in self.broadcast.read:
          target = self.broadcast[key][1]
      if target is None:
          raise KeyError("Cannot mutate non-existing dataset")
      target[index] = value
  \<close>
  The target is either a plain value taken from the local dictionary or, through the
  broadcast notifier, a wrapper around the value of the broadcast entry; the wrapper
  is an object of its own and so is never \<^verbatim>\<open>None\<close>. The two tests are consecutive
  \<^verbatim>\<open>if\<close> statements: the second overwrites the target chosen by the first. The
  result is the exception raised, if any, with the state left behind. The first
  argument is numpy's item assignment, used when the target is an array.
\<close>

datatype target = Plain pyval | Notified string pyval

definition DatasetManager_mutate ::
  "numpy_setitem \<Rightarrow> DatasetManager \<Rightarrow> string \<Rightarrow> int \<Rightarrow> pyval \<Rightarrow>
   error option \<times> DatasetManager" where
  "DatasetManager_mutate np self key index v =
     (let target0 = Plain PNone;
          target1 = (case local self key of
                       Some x \<Rightarrow> Plain x
                     | None \<Rightarrow> target0);
          target2 = (case broadcast self key of
                       Some entry \<Rightarrow> Notified key (snd entry)
                     | None \<Rightarrow> target1)
      in if target2 = Plain PNone then (Some KeyError, self)
         else
           (case target2 of
              Plain obj \<Rightarrow>
                (case py_setitem np (heap self) obj index v of
                   Inl e \<Rightarrow> (Some e, self)
                 | Inr h \<Rightarrow> (None, self\<lparr>heap := h\<rparr>))
            | Notified k obj \<Rightarrow>
                (case py_setitem np (heap self) obj index v of
                   Inl e \<Rightarrow> (Some e, self)
                 | Inr h \<Rightarrow>
                     (None, self\<lparr>heap := h,
                                published := published self @
                                  [\<lparr>mod_path = [PKey k, PIdx 1], mod_key = PIdx index,
                                    mod_value = v\<rparr>]\<rparr>))))"

section \<open>Serialising results: \<^verbatim>\<open>result_dict_to_hdf5\<close>\<close>

text \<open>
  The type codes of the container format that the module uses, and \<^verbatim>\<open>"S<n>"\<close>, the
  fixed-length byte string of declared length \<open>n\<close>.
\<close>

datatype h5_type =
    STD_I8BE | STD_I16BE | STD_I32BE | STD_I64BE
  | STD_U8BE | STD_U16BE | STD_U32BE | STD_U64BE
  | IEEE_F16BE | IEEE_F32BE | IEEE_F64BE
  | FixedString nat

datatype pytype =
    T_NoneType | T_bool | T_int | T_float | T_str | T_bytes
  | T_np np_type | T_tuple | T_list | T_ndarray | T_other string

fun py_type :: "heap \<Rightarrow> pyval \<Rightarrow> pytype" where
  "py_type h PNone = T_NoneType"
| "py_type h (PBool b) = T_bool"
| "py_type h (PInt i) = T_int"
| "py_type h (PFloat x) = T_float"
| "py_type h (PStr s) = T_str"
| "py_type h (PBytes bs) = T_bytes"
| "py_type h (PNp t x) = T_np t"
| "py_type h (PTuple vs) = T_tuple"
| "py_type h (PRef a) = (case h a of ListObj xs \<Rightarrow> T_list | ArrayObj t xs \<Rightarrow> T_ndarray)"
| "py_type h (PObj n) = T_other n"

text \<open>
  \<^verbatim>\<open>
  _type_to_hdf5 = {
      int: h5py.h5t.STD_I64BE,
      float: h5py.h5t.IEEE_F64BE,
      np.int8: h5py.h5t.STD_I8BE,     np.int16: h5py.h5t.STD_I16BE,
      np.int32: h5py.h5t.STD_I32BE,   np.int64: h5py.h5t.STD_I64BE,
      np.uint8: h5py.h5t.STD_U8BE,    np.uint16: h5py.h5t.STD_U16BE,
      np.uint32: h5py.h5t.STD_U32BE,  np.uint64: h5py.h5t.STD_U64BE,
      np.float16: h5py.h5t.IEEE_F16BE, np.float32: h5py.h5t.IEEE_F32BE,
      np.float64: h5py.h5t.IEEE_F64BE
  }
  \<close>
  A lookup that finds nothing is Python's \<^verbatim>\<open>KeyError\<close>.
\<close>

fun type_to_hdf5 :: "pytype \<Rightarrow> h5_type option" where
  "type_to_hdf5 T_int = Some STD_I64BE"
| "type_to_hdf5 T_float = Some IEEE_F64BE"
| "type_to_hdf5 (T_np np_int8) = Some STD_I8BE"
| "type_to_hdf5 (T_np np_int16) = Some STD_I16BE"
| "type_to_hdf5 (T_np np_int32) = Some STD_I32BE"
| "type_to_hdf5 (T_np np_int64) = Some STD_I64BE"
| "type_to_hdf5 (T_np np_uint8) = Some STD_U8BE"
| "type_to_hdf5 (T_np np_uint16) = Some STD_U16BE"
| "type_to_hdf5 (T_np np_uint32) = Some STD_U32BE"
| "type_to_hdf5 (T_np np_uint64) = Some STD_U64BE"
| "type_to_hdf5 (T_np np_float16) = Some IEEE_F16BE"
| "type_to_hdf5 (T_np np_float32) = Some IEEE_F32BE"
| "type_to_hdf5 (T_np np_float64) = Some IEEE_F64BE"
| "type_to_hdf5 _ = None"

text \<open>
  \<^verbatim>\<open>isinstance(data, bool)\<close> and \<^verbatim>\<open>isinstance(data, int)\<close>: \<^verbatim>\<open>bool\<close> is a subclass
  of \<^verbatim>\<open>int\<close>, so a boolean passes both tests; the numpy scalars pass neither.
\<close>

fun isinstance_bool :: "pyval \<Rightarrow> bool" where
  "isinstance_bool (PBool b) = True"
| "isinstance_bool _ = False"

fun isinstance_int :: "pyval \<Rightarrow> bool" where
  "isinstance_int (PBool b) = True"
| "isinstance_int (PInt i) = True"
| "isinstance_int _ = False"

definition isinstance_ndarray :: "heap \<Rightarrow> pyval \<Rightarrow> bool" where
  "isinstance_ndarray h v = (py_type h v = T_ndarray)"

text \<open>
  \<^verbatim>\<open>np.int8(data)\<close> on a boolean gives 0 or 1. \<^verbatim>\<open>np.int64(data)\<close> on a Python integer
  gives the same number when it fits 64 signed bits, and raises \<^verbatim>\<open>OverflowError\<close>
  otherwise. Both are called on values that passed the \<^verbatim>\<open>isinstance\<close> tests above.
\<close>

fun int_value :: "pyval \<Rightarrow> int" where
  "int_value (PBool b) = (if b then 1 else 0)"
| "int_value (PInt i) = i"
| "int_value _ = 0"

definition np_int8_of :: "pyval \<Rightarrow> pyval" where
  "np_int8_of v = PNp np_int8 (int_value v)"

definition np_int64_of :: "pyval \<Rightarrow> error + pyval" where
  "np_int64_of v =
     (let i = int_value v
      in if - (2 ^ 63) \<le> i \<and> i < 2 ^ 63 then Inr (PNp np_int64 i) else Inl OverflowError)"

text \<open>
  \<^verbatim>\<open>str.encode()\<close>: UTF-8. A code point takes one to four bytes; a surrogate
  (\<open>0xD800\<close> to \<open>0xDFFF\<close>) cannot be encoded and raises \<^verbatim>\<open>UnicodeEncodeError\<close>.
  A Python string holds no code point above \<open>0x10FFFF\<close>; the model refuses those too.
\<close>

definition utf8_char :: "codepoint \<Rightarrow> error + 8 word list" where
  "utf8_char c =
     (if c < 0x80 then Inr [of_nat c]
      else if c < 0x800 then Inr [of_nat (0xC0 + c div 64), of_nat (0x80 + c mod 64)]
      else if 0xD800 \<le> c \<and> c \<le> 0xDFFF then Inl UnicodeEncodeError
      else if c < 0x10000 then
        Inr [of_nat (0xE0 + c div 4096), of_nat (0x80 + c div 64 mod 64),
             of_nat (0x80 + c mod 64)]
      else if c < 0x110000 then
        Inr [of_nat (0xF0 + c div 262144), of_nat (0x80 + c div 4096 mod 64),
             of_nat (0x80 + c div 64 mod 64), of_nat (0x80 + c mod 64)]
      else Inl UnicodeEncodeError)"

fun str_encode :: "codepoint list \<Rightarrow> error + 8 word list" where
  "str_encode [] = Inr []"
| "str_encode (c # cs) =
     (case utf8_char c of
        Inl e \<Rightarrow> Inl e
      | Inr bs \<Rightarrow> (case str_encode cs of Inl e \<Rightarrow> Inl e | Inr rest \<Rightarrow> Inr (bs @ rest)))"

text \<open>
  The output container, as the datasets created in it so far, each under the name it
  was created with. A dataset has a type code (absent for an array, whose element
  type the library takes from the array itself), the data assigned to it, and its
  attributes. What the library does with bytes longer than the declared length of a
  string dataset is outside the model: the dataset records the bytes that were
  assigned.

  Whether \<^verbatim>\<open>create_dataset\<close> creates a dataset is decided by the container
  library: a name is a path, and the library refuses the empty name, a name in use,
  a name below something that is not a group, and whatever else it refuses. That
  decision is a parameter of the model: \<open>accepts f name ds\<close> tells whether the
  library, on the container \<open>f\<close>, creates the dataset \<open>ds\<close> under \<open>name\<close>. One
  refusal is written out, since the serialiser can ask for it: a string type of
  length zero (\<^verbatim>\<open>"S0"\<close>) is refused with \<^verbatim>\<open>ValueError\<close>.
\<close>

datatype h5_data = Scalar pyval | Elements "pyval list"

record dataset =
  ds_type :: "h5_type option"
  ds_data :: h5_data
  ds_attrs :: "string \<rightharpoonup> pyval"

type_synonym h5file = "string \<rightharpoonup> dataset"

type_synonym h5_accepts = "h5file \<Rightarrow> string \<Rightarrow> dataset \<Rightarrow> bool"

definition create_dataset ::
  "h5_accepts \<Rightarrow> h5file \<Rightarrow> string \<Rightarrow> dataset \<Rightarrow> error + h5file" where
  "create_dataset accepts f name ds =
     (if ds_type ds = Some (FixedString 0) then Inl ValueError
      else if accepts f name ds then Inr (f(name \<mapsto> ds))
      else Inl H5Error)"

definition set_attr :: "h5file \<Rightarrow> string \<Rightarrow> string \<Rightarrow> pyval \<Rightarrow> h5file" where
  "set_attr f name flag v =
     (case f name of
        Some ds \<Rightarrow> f(name \<mapsto> ds\<lparr>ds_attrs := (ds_attrs ds)(flag \<mapsto> v)\<rparr>)
      | None \<Rightarrow> f)"

text \<open>
  The body of the loop of \<^verbatim>\<open>result_dict_to_hdf5\<close>, for one item of the dictionary:
  \<^verbatim>\<open>
      flag = None
      # beware: isinstance(True/False, int) == True
      if isinstance(data, bool):
          data = np.int8(data)
          flag = "py_bool"
      elif isinstance(data, int):
          data = np.int64(data)
          flag = "py_int"

      if isinstance(data, np.ndarray):
          dataset = f.create_dataset(name, data=data)
      else:
          ty = type(data)
          if ty is str:
              ty_h5 = "S{}".format(len(data))
              data = data.encode()
          else:
              try:
                  ty_h5 = _type_to_hdf5[ty]
              except KeyError:
                  raise TypeError("Type {} is not supported for HDF5 output"
                                  .format(ty)) from None
          dataset = f.create_dataset(name, (), ty_h5)
          dataset[()] = data

      if flag is not None:
          dataset.attrs[flag] = np.int8(1)
  \<close>
  \<open>convert_flag\<close> is the first \<^verbatim>\<open>if\<close>/\<^verbatim>\<open>elif\<close>, \<open>store_data\<close> the second statement,
  \<open>hdf5_item\<close> the whole body.
\<close>

definition convert_flag :: "pyval \<Rightarrow> error + (pyval \<times> string option)" where
  "convert_flag data =
     (if isinstance_bool data then Inr (np_int8_of data, Some ''py_bool'')
      else if isinstance_int data then
        (case np_int64_of data of
           Inl e \<Rightarrow> Inl e
         | Inr d \<Rightarrow> Inr (d, Some ''py_int''))
      else Inr (data, None))"

definition store_data ::
  "h5_accepts \<Rightarrow> heap \<Rightarrow> h5file \<Rightarrow> string \<Rightarrow> pyval \<Rightarrow> error + h5file" where
  "store_data accepts h f name data =
     (if isinstance_ndarray h data then
        (case data of
           PRef a \<Rightarrow>
             create_dataset accepts f name
               \<lparr>ds_type = None, ds_data = Elements (elems (h a)), ds_attrs = Map.empty\<rparr>
         | _ \<Rightarrow> Inl TypeError)
      else
        (let ty = py_type h data
         in case data of
              PStr s \<Rightarrow>
                (let ty_h5 = FixedString (length s)
                 in case str_encode s of
                      Inl e \<Rightarrow> Inl e
                    | Inr bs \<Rightarrow>
                        create_dataset accepts f name
                          \<lparr>ds_type = Some ty_h5, ds_data = Scalar (PBytes bs),
                           ds_attrs = Map.empty\<rparr>)
            | _ \<Rightarrow>
                (case type_to_hdf5 ty of
                   None \<Rightarrow> Inl TypeError
                 | Some ty_h5 \<Rightarrow>
                     create_dataset accepts f name
                       \<lparr>ds_type = Some ty_h5, ds_data = Scalar data,
                        ds_attrs = Map.empty\<rparr>)))"

definition hdf5_item ::
  "h5_accepts \<Rightarrow> heap \<Rightarrow> h5file \<Rightarrow> string \<Rightarrow> pyval \<Rightarrow> error + h5file" where
  "hdf5_item accepts h f name data0 =
     (case convert_flag data0 of
        Inl e \<Rightarrow> Inl e
      | Inr (data, flag) \<Rightarrow>
          (case store_data accepts h f name data of
             Inl e \<Rightarrow> Inl e
           | Inr f1 \<Rightarrow>
               (case flag of
                  None \<Rightarrow> Inr f1
                | Some fl \<Rightarrow> Inr (set_attr f1 name fl (PNp np_int8 1)))))"

text \<open>
  The loop over \<^verbatim>\<open>rd.items()\<close>, the dictionary given as its items in iteration
  order. An exception ends the loop; the datasets written before it stay in the
  container.
\<close>

fun result_dict_to_hdf5 ::
  "h5_accepts \<Rightarrow> heap \<Rightarrow> h5file \<Rightarrow> (string \<times> pyval) list \<Rightarrow> error option \<times> h5file" where
  "result_dict_to_hdf5 accepts h f [] = (None, f)"
| "result_dict_to_hdf5 accepts h f ((name, data) # rd) =
     (case hdf5_item accepts h f name data of
        Inl e \<Rightarrow> (Some e, f)
      | Inr f1 \<Rightarrow> result_dict_to_hdf5 accepts h f1 rd)"

section \<open>RIDCounter\<close>

subsection \<open>Text and numbers\<close>

text \<open>
  File names and the contents of the cache file are strings of 8-bit characters. In
  that range the regular expression class \<^verbatim>\<open>\d\<close> and \<^verbatim>\<open>int()\<close> know the ten digits
  \<open>0\<close> to \<open>9\<close> only.
\<close>

definition is_digit :: "char \<Rightarrow> bool" where
  "is_digit c = (48 \<le> (of_char c :: nat) \<and> (of_char c :: nat) \<le> 57)"

definition digit_value :: "char \<Rightarrow> nat" where
  "digit_value c = of_char c - 48"

definition digit_char :: "nat \<Rightarrow> char" where
  "digit_char d = char_of (48 + d)"

text \<open>\<^verbatim>\<open>str(rid)\<close>: the decimal digits, after a minus sign for a negative number.\<close>

fun str_nat :: "nat \<Rightarrow> string" where
  "str_nat n = (if n < 10 then [digit_char n] else str_nat (n div 10) @ [digit_char (n mod 10)])"

declare str_nat.simps [simp del]

definition py_str :: "int \<Rightarrow> string" where
  "py_str i = (if i < 0 then CHR ''-'' # str_nat (nat (- i)) else str_nat (nat i))"

text \<open>
  \<^verbatim>\<open>int(s)\<close> on a string, as the Python 3.5 of the repository reads it: white
  space around the number is dropped (the six ASCII white space characters, and in
  the 8-bit range the two others that Unicode counts as spaces, \<open>0x85\<close> and
  \<open>0xA0\<close>), one sign may come first, then decimal digits and nothing else.
  Anything else raises \<^verbatim>\<open>ValueError\<close>.
\<close>

definition is_space :: "char \<Rightarrow> bool" where
  "is_space c =
     (let n = (of_char c :: nat)
      in (9 \<le> n \<and> n \<le> 13) \<or> n = 32 \<or> n = 133 \<or> n = 160)"

definition py_strip :: "string \<Rightarrow> string" where
  "py_strip s = rev (dropWhile is_space (rev (dropWhile is_space s)))"

fun digits_from :: "nat \<Rightarrow> string \<Rightarrow> nat option" where
  "digits_from acc [] = Some acc"
| "digits_from acc (c # cs) =
     (if is_digit c then digits_from (10 * acc + digit_value c) cs else None)"

definition parse_decimal :: "string \<Rightarrow> nat option" where
  "parse_decimal s =
     (case s of
        [] \<Rightarrow> None
      | c # cs \<Rightarrow> if is_digit c then digits_from (digit_value c) cs else None)"

definition py_int :: "string \<Rightarrow> error + int" where
  "py_int s =
     (case py_strip s of
        [] \<Rightarrow> Inl ValueError
      | c # cs \<Rightarrow>
          if c = CHR ''-'' then
            (case parse_decimal cs of None \<Rightarrow> Inl ValueError | Some n \<Rightarrow> Inr (- int n))
          else if c = CHR ''+'' then
            (case parse_decimal cs of None \<Rightarrow> Inl ValueError | Some n \<Rightarrow> Inr (int n))
          else
            (case parse_decimal (c # cs) of None \<Rightarrow> Inl ValueError | Some n \<Rightarrow> Inr (int n)))"

subsection \<open>Regular expressions\<close>

text \<open>
  The three patterns of the module use three constructs: \<^verbatim>\<open>\d\<close>, a literal
  character, and \<^verbatim>\<open>.*\<close> (any run of characters other than a newline).
  \<open>fullmatch\<close> is \<^verbatim>\<open>re.fullmatch(pattern, x) is not None\<close> on such patterns: the
  whole string has to match.
\<close>

datatype re_token = Digit | Lit char | AnyStar

fun fullmatch :: "re_token list \<Rightarrow> string \<Rightarrow> bool" where
  "fullmatch [] s = (s = [])"
| "fullmatch (Digit # ts) [] = False"
| "fullmatch (Digit # ts) (c # cs) = (is_digit c \<and> fullmatch ts cs)"
| "fullmatch (Lit x # ts) [] = False"
| "fullmatch (Lit x # ts) (c # cs) = (c = x \<and> fullmatch ts cs)"
| "fullmatch (AnyStar # ts) [] = fullmatch ts []"
| "fullmatch (AnyStar # ts) (c # cs) =
     (fullmatch ts (c # cs) \<or> (c \<noteq> CHR 0x0A \<and> fullmatch (AnyStar # ts) cs))"

text \<open>\<^verbatim>\<open>'\d\d\d\d-\d\d-\d\d'\<close>, \<^verbatim>\<open>'\d\d-\d\d'\<close> and \<^verbatim>\<open>'(\d\d\d\d\d\d\d\d\d)-.*\.h5'\<close>.\<close>

definition day_pattern :: "re_token list" where
  "day_pattern =
     [Digit, Digit, Digit, Digit, Lit CHR ''-'', Digit, Digit, Lit CHR ''-'', Digit, Digit]"

definition minute_pattern :: "re_token list" where
  "minute_pattern = [Digit, Digit, Lit CHR ''-'', Digit, Digit]"

definition h5_pattern :: "re_token list" where
  "h5_pattern =
     replicate 9 Digit @ [Lit CHR ''-'', AnyStar, Lit CHR ''.'', Lit CHR ''h'', Lit CHR ''5'']"

text \<open>\<^verbatim>\<open>m.group(1)\<close> of a match of the last pattern: the nine leading characters.\<close>

definition group1 :: "string \<Rightarrow> string" where
  "group1 x = take 9 x"

subsection \<open>The file system\<close>

text \<open>
  What the counter sees of the file system: the cache file (absent, present but not
  readable, or present with its text), whether a new cache file can be put in place
  (the temporary file written and renamed), and the tree below the results directory
  (absent, or a node). A node is a directory with its entries, or anything that cannot
  be listed: a plain file, or a directory without permission.
\<close>

datatype cache_state = NoFile | Denied | Text string

datatype node = Dir "(string \<times> node) list" | File | Locked

record filesystem =
  cache :: cache_state
  cache_writable :: bool
  results :: "node option"

text \<open>
  \<^verbatim>\<open>os.listdir(path)\<close>: the names in a directory, or an error. \<open>child\<close> is what
  \<^verbatim>\<open>os.path.join(path, name)\<close> names.
\<close>

fun listdir :: "node option \<Rightarrow> error + string list" where
  "listdir None = Inl FileNotFoundError"
| "listdir (Some (Dir es)) = Inr (map fst es)"
| "listdir (Some File) = Inl OSError"
| "listdir (Some Locked) = Inl OSError"

fun child :: "node option \<Rightarrow> string \<Rightarrow> node option" where
  "child (Some (Dir es)) name = map_of es name"
| "child _ name = None"

subsection \<open>The counter\<close>

text \<open>
  \<^verbatim>\<open>
  def _update_cache(self, rid):
      contents = str(rid) + "\n"
      directory = os.path.abspath(os.path.dirname(self.cache_filename))
      with tempfile.NamedTemporaryFile("w", dir=directory, delete=False) as f:
          f.write(contents)
          tmpname = f.name
      os.replace(tmpname, self.cache_filename)

  def _last_rid_from_cache(self):
      with open(self.cache_filename, "r") as f:
          return int(f.read())
  \<close>
\<close>

definition update_cache :: "filesystem \<Rightarrow> int \<Rightarrow> error + filesystem" where
  "update_cache fs rid =
     (let contents = py_str rid @ [CHR 0x0A]
      in if cache_writable fs then Inr (fs\<lparr>cache := Text contents\<rparr>) else Inl OSError)"

definition last_rid_from_cache :: "filesystem \<Rightarrow> error + int" where
  "last_rid_from_cache fs =
     (case cache fs of
        NoFile \<Rightarrow> Inl FileNotFoundError
      | Denied \<Rightarrow> Inl OSError
      | Text s \<Rightarrow> py_int s)"

text \<open>
  \<^verbatim>\<open>
  def _last_rid_from_results(self):
      r = -1
      try:
          day_folders = os.listdir(self.results_dir)
      except:
          return r
      day_folders = filter(lambda x: re.fullmatch('\d\d\d\d-\d\d-\d\d', x),
                           day_folders)
      for df in day_folders:
          day_path = os.path.join(self.results_dir, df)
          try:
              minute_folders = os.listdir(day_path)
          except:
              continue
          minute_folders = filter(lambda x: re.fullmatch('\d\d-\d\d', x),
                                            minute_folders)
          for mf in minute_folders:
              minute_path = os.path.join(day_path, mf)
              try:
                  h5files = os.listdir(minute_path)
              except:
                  continue
              for x in h5files:
                  m = re.fullmatch('(\d\d\d\d\d\d\d\d\d)-.*\.h5', x)
                  if m is None:
                      continue
                  rid = int(m.group(1))
                  if rid > r:
                      r = rid
      return r
  \<close>
  One function for each loop, innermost first; \<open>r\<close> is threaded through. The call of
  \<^verbatim>\<open>int\<close> is outside every \<^verbatim>\<open>try\<close>: an error there would leave the function.
\<close>

fun scan_files :: "int \<Rightarrow> string list \<Rightarrow> error + int" where
  "scan_files r [] = Inr r"
| "scan_files r (x # h5files) =
     (if \<not> fullmatch h5_pattern x then scan_files r h5files
      else
        (case py_int (group1 x) of
           Inl e \<Rightarrow> Inl e
         | Inr rid \<Rightarrow> scan_files (if rid > r then rid else r) h5files))"

fun scan_minutes :: "node option \<Rightarrow> int \<Rightarrow> string list \<Rightarrow> error + int" where
  "scan_minutes day_path r [] = Inr r"
| "scan_minutes day_path r (mf # minute_folders) =
     (let minute_path = child day_path mf
      in case listdir minute_path of
           Inl e \<Rightarrow> scan_minutes day_path r minute_folders
         | Inr h5files \<Rightarrow>
             (case scan_files r h5files of
                Inl e \<Rightarrow> Inl e
              | Inr r1 \<Rightarrow> scan_minutes day_path r1 minute_folders))"

fun scan_days :: "node option \<Rightarrow> int \<Rightarrow> string list \<Rightarrow> error + int" where
  "scan_days results_dir r [] = Inr r"
| "scan_days results_dir r (df # day_folders) =
     (let day_path = child results_dir df
      in case listdir day_path of
           Inl e \<Rightarrow> scan_days results_dir r day_folders
         | Inr minute_folders \<Rightarrow>
             (case scan_minutes day_path r (filter (fullmatch minute_pattern) minute_folders) of
                Inl e \<Rightarrow> Inl e
              | Inr r1 \<Rightarrow> scan_days results_dir r1 day_folders))"

definition last_rid_from_results :: "filesystem \<Rightarrow> error + int" where
  "last_rid_from_results fs =
     (let r = - 1
      in case listdir (results fs) of
           Inl e \<Rightarrow> Inr r
         | Inr day_folders \<Rightarrow>
             scan_days (results fs) r (filter (fullmatch day_pattern) day_folders))"

text \<open>
  \<^verbatim>\<open>
  def _last_rid(self):
      try:
          rid = self._last_rid_from_cache()
      except FileNotFoundError:
          logger.debug("Last RID cache not found, scanning results")
          rid = self._last_rid_from_results()
          self._update_cache(rid)
          return rid
      else:
          logger.debug("Using last RID from cache")
          return rid
  \<close>
  The result comes with the file system as the call leaves it.
\<close>

definition last_rid :: "filesystem \<Rightarrow> (error + int) \<times> filesystem" where
  "last_rid fs =
     (case last_rid_from_cache fs of
        Inl FileNotFoundError \<Rightarrow>
          (case last_rid_from_results fs of
             Inl e \<Rightarrow> (Inl e, fs)
           | Inr rid \<Rightarrow>
               (case update_cache fs rid of
                  Inl e \<Rightarrow> (Inl e, fs)
                | Inr fs1 \<Rightarrow> (Inr rid, fs1)))
      | Inl e \<Rightarrow> (Inl e, fs)
      | Inr rid \<Rightarrow> (Inr rid, fs))"

text \<open>
  \<^verbatim>\<open>
  def __init__(self, cache_filename="last_rid.pyon", results_dir="results"):
      self.cache_filename = cache_filename
      self.results_dir = results_dir
      self._next_rid = self._last_rid() + 1

  def get(self):
      rid = self._next_rid
      self._next_rid += 1
      self._update_cache(rid)
      return rid
  \<close>
  The two paths are fixed for the life of a counter; the file system record holds
  what lies at them. The state of the counter itself is \<^verbatim>\<open>_next_rid\<close>.
\<close>

record RIDCounter =
  next_rid :: int

definition RIDCounter_init :: "filesystem \<Rightarrow> (error + RIDCounter) \<times> filesystem" where
  "RIDCounter_init fs =
     (case last_rid fs of
        (Inl e, fs1) \<Rightarrow> (Inl e, fs1)
      | (Inr rid, fs1) \<Rightarrow> (Inr \<lparr>next_rid = rid + 1\<rparr>, fs1))"

definition RIDCounter_get ::
  "RIDCounter \<Rightarrow> filesystem \<Rightarrow> (error + int) \<times> RIDCounter \<times> filesystem" where
  "RIDCounter_get self fs =
     (let rid = next_rid self;
          self1 = self\<lparr>next_rid := next_rid self + 1\<rparr>
      in case update_cache fs rid of
           Inl e \<Rightarrow> (Inl e, self1, fs)
         | Inr fs1 \<Rightarrow> (Inr rid, self1, fs1))"

text \<open>
  \<open>n\<close> calls of \<^verbatim>\<open>get\<close> in a row: the values returned, in order, until one call
  raises.
\<close>

fun gets :: "nat \<Rightarrow> RIDCounter \<Rightarrow> filesystem \<Rightarrow> (error + int list) \<times> RIDCounter \<times> filesystem" where
  "gets 0 self fs = (Inr [], self, fs)"
| "gets (Suc n) self fs =
     (case RIDCounter_get self fs of
        (Inl e, self1, fs1) \<Rightarrow> (Inl e, self1, fs1)
      | (Inr rid, self1, fs1) \<Rightarrow>
          (case gets n self1 fs1 of
             (Inl e, self2, fs2) \<Rightarrow> (Inl e, self2, fs2)
           | (Inr rids, self2, fs2) \<Rightarrow> (Inr (rid # rids), self2, fs2)))"

section \<open>DeviceManager\<close>

text \<open>
  A device is built by code outside the module (a driver class, or the RPC client of
  \<^verbatim>\<open>artiq.protocols.pc_rpc\<close>) and is closed by calling into that code. The model
  keeps of a device what \<^verbatim>\<open>close_devices\<close> asks of it: whether it is one of the two
  RPC client classes, whether it has a \<^verbatim>\<open>close\<close> attribute, and what the call of
  its closing operation does: return, raise an exception of class \<^verbatim>\<open>Exception\<close>, or
  raise one outside that class (\<^verbatim>\<open>KeyboardInterrupt\<close>, \<^verbatim>\<open>SystemExit\<close>), which
  \<^verbatim>\<open>except Exception\<close> does not catch.
\<close>

datatype close_result = Returns | RaisesException | RaisesBaseException

datatype rpc_class = Client | BestEffortClient

datatype target_name = AutoTarget | Target string

datatype device =
    RPC rpc_class string int target_name close_result
  | Driver string string "close_result option"

text \<open>
  An entry of the device database is an alias (a string) or a description. A
  description is taken as well formed: its \<^verbatim>\<open>"type"\<close> is present, and so are the keys
  its type requires; the optional keys (\<^verbatim>\<open>"arguments"\<close>, \<^verbatim>\<open>"target_name"\<close>,
  \<^verbatim>\<open>"best_effort"\<close>) are fields with their defaults.
\<close>

datatype descriptor =
    LocalDesc string string "(string \<times> pyval) list"
  | ControllerDesc string int "string option" bool
  | OtherDesc string

datatype ddb_entry = Alias string | Description descriptor

text \<open>
  The world outside the manager: what instantiating a driver class gives, what
  connecting an RPC client gives (the behaviour of the new client on closing, or an
  error), and the log of the calls made so far to constructors that returned a device
  and to closing operations. A driver's constructor is taken not to call back into the
  manager.
\<close>

datatype event = Created device | CloseCalled device

record world =
  instantiate :: "string \<Rightarrow> string \<Rightarrow> (string \<times> pyval) list \<Rightarrow> error + device"
  connect :: "rpc_class \<Rightarrow> string \<Rightarrow> int \<Rightarrow> target_name \<Rightarrow> error + close_result"
  calls :: "event list"

text \<open>
  \<^verbatim>\<open>
  def _create_device(desc, device_mgr):
      ty = desc["type"]
      if ty == "local":
          module = importlib.import_module(desc["module"])
          device_class = getattr(module, desc["class"])
          return device_class(device_mgr, **desc.get("arguments", {}))
      elif ty == "controller":
          if desc.get("best_effort", False):
              cls = BestEffortClient
          else:
              cls = Client
          # Automatic target can be specified either by the absence of
          # the target_name parameter, or a None value.
          target_name = desc.get("target_name", None)
          if target_name is None:
              target_name = AutoTarget
          return cls(desc["host"], desc["port"], target_name)
      else:
          raise ValueError("Unsupported type in device DB: " + ty)
  \<close>
\<close>

definition create_device :: "world \<Rightarrow> descriptor \<Rightarrow> (error + device) \<times> world" where
  "create_device w desc =
     (case desc of
        LocalDesc module cl arguments \<Rightarrow>
          (case instantiate w module cl arguments of
             Inl e \<Rightarrow> (Inl e, w)
           | Inr dev \<Rightarrow> (Inr dev, w\<lparr>calls := calls w @ [Created dev]\<rparr>))
      | ControllerDesc host port tn best_effort \<Rightarrow>
          (let cls = (if best_effort then BestEffortClient else Client);
               target = (case tn of None \<Rightarrow> AutoTarget | Some t \<Rightarrow> Target t)
           in case connect w cls host port target of
                Inl e \<Rightarrow> (Inl e, w)
              | Inr cr \<Rightarrow>
                  (let dev = RPC cls host port target cr
                   in (Inr dev, w\<lparr>calls := calls w @ [Created dev]\<rparr>)))
      | OtherDesc ty \<Rightarrow> (Inl ValueError, w))"

text \<open>
  The manager: the device database (\<^verbatim>\<open>ddb.get\<close> raises \<^verbatim>\<open>KeyError\<close> for a name it
  does not know), the virtual devices, and the active devices, an \<^verbatim>\<open>OrderedDict\<close>
  kept as its items in insertion order.
\<close>

record DeviceManager =
  ddb :: "string \<rightharpoonup> ddb_entry"
  virtual_devices :: "string \<rightharpoonup> device"
  active_devices :: "(string \<times> device) list"

definition DeviceManager_init ::
  "(string \<rightharpoonup> ddb_entry) \<Rightarrow> (string \<rightharpoonup> device) \<Rightarrow> DeviceManager" where
  "DeviceManager_init db vd = \<lparr>ddb = db, virtual_devices = vd, active_devices = []\<rparr>"

definition ddb_get :: "(string \<rightharpoonup> ddb_entry) \<Rightarrow> string \<Rightarrow> error + ddb_entry" where
  "ddb_get db name = (case db name of None \<Rightarrow> Inl KeyError | Some e \<Rightarrow> Inr e)"

text \<open>\<^verbatim>\<open>d[k] = v\<close> on an \<^verbatim>\<open>OrderedDict\<close>: a new key goes last, a known key keeps its place.\<close>

fun odict_set :: "('k \<times> 'v) list \<Rightarrow> 'k \<Rightarrow> 'v \<Rightarrow> ('k \<times> 'v) list" where
  "odict_set [] k v = [(k, v)]"
| "odict_set ((k1, v1) # kvs) k v =
     (if k1 = k then (k, v) # kvs else (k1, v1) # odict_set kvs k v)"

text \<open>
  \<^verbatim>\<open>
  while isinstance(desc, str):
      # alias
      desc = self.ddb.get(desc)
  \<close>
  Nothing bounds the loop: on a cycle of aliases it runs forever, which is the value
  \<open>None\<close> here.
\<close>

partial_function (option) follow_aliases ::
  "(string \<rightharpoonup> ddb_entry) \<Rightarrow> ddb_entry \<Rightarrow> (error + descriptor) option" where
  "follow_aliases db desc =
     (case desc of
        Alias name \<Rightarrow>
          (case ddb_get db name of
             Inl e \<Rightarrow> Some (Inl e)
           | Inr desc1 \<Rightarrow> follow_aliases db desc1)
      | Description d \<Rightarrow> Some (Inr d))"

declare follow_aliases.simps [code]

text \<open>
  \<^verbatim>\<open>
  def get(self, name):
      if name in self.virtual_devices:
          return self.virtual_devices[name]
      if name in self.active_devices:
          return self.active_devices[name]
      else:
          desc = self.ddb.get(name)
          while isinstance(desc, str):
              # alias
              desc = self.ddb.get(desc)
          dev = _create_device(desc, self)
          self.active_devices[name] = dev
          return dev
  \<close>
\<close>

definition DeviceManager_get ::
  "DeviceManager \<Rightarrow> world \<Rightarrow> string \<Rightarrow> ((error + device) \<times> DeviceManager \<times> world) option" where
  "DeviceManager_get self w name =
     (case virtual_devices self name of
        Some dev \<Rightarrow> Some (Inr dev, self, w)
      | None \<Rightarrow>
          (case map_of (active_devices self) name of
             Some dev \<Rightarrow> Some (Inr dev, self, w)
           | None \<Rightarrow>
               (case ddb_get (ddb self) name of
                  Inl e \<Rightarrow> Some (Inl e, self, w)
                | Inr desc \<Rightarrow>
                    (case follow_aliases (ddb self) desc of
                       None \<Rightarrow> None
                     | Some (Inl e) \<Rightarrow> Some (Inl e, self, w)
                     | Some (Inr d) \<Rightarrow>
                         (case create_device w d of
                            (Inl e, w1) \<Rightarrow> Some (Inl e, self, w1)
                          | (Inr dev, w1) \<Rightarrow>
                              Some (Inr dev,
                                    self\<lparr>active_devices :=
                                           odict_set (active_devices self) name dev\<rparr>,
                                    w1))))))"

text \<open>
  \<^verbatim>\<open>
  def close_devices(self):
      """Closes all active devices, in the opposite order as they were
      requested."""
      for dev in reversed(list(self.active_devices.values())):
          try:
              if isinstance(dev, (Client, BestEffortClient)):
                  dev.close_rpc()
              elif hasattr(dev, "close"):
                  dev.close()
          except Exception as e:
              logger.warning("Exception %r when closing device %r", e, dev)
      self.active_devices.clear()
  \<close>
  \<open>closing_call\<close> is the call the body of the \<^verbatim>\<open>try\<close> makes, if any, with what it
  does. \<open>close_loop\<close> is the loop: a call is logged; an \<^verbatim>\<open>Exception\<close> is caught and
  the loop goes on; anything else leaves the loop and the method, before
  \<^verbatim>\<open>clear()\<close>. The boolean of the result tells whether the method returned
  (\<open>True\<close>) or was left by an exception it does not catch (\<open>False\<close>).
\<close>

fun closing_call :: "device \<Rightarrow> close_result option" where
  "closing_call (RPC cls host port target cr) = Some cr"
| "closing_call (Driver module cl (Some cr)) = Some cr"
| "closing_call (Driver module cl None) = None"

fun close_loop :: "device list \<Rightarrow> event list \<Rightarrow> bool \<times> event list" where
  "close_loop [] log = (True, log)"
| "close_loop (dev # devs) log =
     (case closing_call dev of
        None \<Rightarrow> close_loop devs log
      | Some Returns \<Rightarrow> close_loop devs (log @ [CloseCalled dev])
      | Some RaisesException \<Rightarrow> close_loop devs (log @ [CloseCalled dev])
      | Some RaisesBaseException \<Rightarrow> (False, log @ [CloseCalled dev]))"

definition close_devices :: "DeviceManager \<Rightarrow> world \<Rightarrow> bool \<times> DeviceManager \<times> world" where
  "close_devices self w =
     (case close_loop (rev (map snd (active_devices self))) (calls w) of
        (True, log) \<Rightarrow> (True, self\<lparr>active_devices := []\<rparr>, w\<lparr>calls := log\<rparr>)
      | (False, log) \<Rightarrow> (False, self, w\<lparr>calls := log\<rparr>))"

text \<open>
  A run of the manager: \<^verbatim>\<open>get\<close> called for each name of a list in turn, whatever
  each call returns or raises; \<open>None\<close> when one of the calls does not return.
\<close>

fun get_all :: "DeviceManager \<Rightarrow> world \<Rightarrow> string list \<Rightarrow> (DeviceManager \<times> world) option" where
  "get_all self w [] = Some (self, w)"
| "get_all self w (name # names) =
     (case DeviceManager_get self w name of
        None \<Rightarrow> None
      | Some (r, self1, w1) \<Rightarrow> get_all self1 w1 names)"

text \<open>The devices built, and the devices whose closing operation was called, in order.\<close>

fun created :: "event list \<Rightarrow> device list" where
  "created [] = []"
| "created (Created dev # es) = dev # created es"
| "created (CloseCalled dev # es) = created es"

fun closed :: "event list \<Rightarrow> device list" where
  "closed [] = []"
| "closed (Created dev # es) = closed es"
| "closed (CloseCalled dev # es) = dev # closed es"

section \<open>Reference notions and sample states\<close>

text \<open>
  \<open>written xs i v\<close> is the list \<open>xs\<close> with \<open>v\<close> at index \<open>i\<close>, a negative index
  counting from the end.
\<close>

definition written :: "pyval list \<Rightarrow> int \<Rightarrow> pyval \<Rightarrow> pyval list" where
  "written xs i v = xs[nat (if i < 0 then i + int (length xs) else i) := v]"

text \<open>
  Sample states of the dataset manager. In \<open>both_state\<close> the key \<open>k\<close> was set
  twice, first broadcast without saving, then saved without broadcasting: the two
  dictionaries hold it with two different lists. In \<open>shared_state\<close> it was set
  once, broadcast and saved: the two dictionaries hold the same list. In
  \<open>local_only_state\<close> it is in the local dictionary alone, and in \<open>none_state\<close> its
  local value is \<^verbatim>\<open>None\<close>. The samples hold no array, and \<open>no_arrays\<close> stands in
  for numpy there.
\<close>

definition no_arrays :: numpy_setitem where
  "no_arrays = (\<lambda>t xs i v. Inl TypeError)"

definition empty_heap :: heap where
  "empty_heap = (\<lambda>a. ListObj [])"

definition two_lists :: heap where
  "two_lists = empty_heap(0 := ListObj [PInt 1], 2 := ListObj [PInt 2])"

definition both_state :: DatasetManager where
  "both_state =
     DatasetManager_set
       (DatasetManager_set (DatasetManager_init two_lists) ''k'' (PRef 0) True False False)
       ''k'' (PRef 2) False False True"

definition shared_state :: DatasetManager where
  "shared_state =
     DatasetManager_set (DatasetManager_init two_lists) ''k'' (PRef 0) True False True"

definition local_only_state :: DatasetManager where
  "local_only_state =
     DatasetManager_set (DatasetManager_init two_lists) ''k'' (PRef 2) False False True"

definition none_state :: DatasetManager where
  "none_state = DatasetManager_set (DatasetManager_init two_lists) ''k'' PNone False False True"

text \<open>
  The datasets that the serialiser is to write for a boolean and for a Python
  integer: a scalar of type \<open>STD_I8BE\<close> valued 0 or 1 with the attribute
  \<^verbatim>\<open>py_bool\<close>, and a scalar of type \<open>STD_I64BE\<close> with the attribute \<^verbatim>\<open>py_int\<close>.
  \<open>is_ascii\<close> holds of the strings whose code points all take one byte in UTF-8.
\<close>

definition bool_dataset :: "bool \<Rightarrow> dataset" where
  "bool_dataset b =
     \<lparr>ds_type = Some STD_I8BE, ds_data = Scalar (PNp np_int8 (if b then 1 else 0)),
      ds_attrs = [''py_bool'' \<mapsto> PNp np_int8 1]\<rparr>"

definition int_dataset :: "int \<Rightarrow> dataset" where
  "int_dataset i =
     \<lparr>ds_type = Some STD_I64BE, ds_data = Scalar (PNp np_int64 i),
      ds_attrs = [''py_int'' \<mapsto> PNp np_int8 1]\<rparr>"

definition is_ascii :: "codepoint list \<Rightarrow> bool" where
  "is_ascii s = list_all (\<lambda>c. c < 0x80) s"

text \<open>
  The dataset as \<^verbatim>\<open>create_dataset\<close> is asked to create it for a scalar, before any
  attribute is set; and a sample of the container library for the examples, which
  creates a dataset under one of three plain names when that name is free.
\<close>

definition scalar_dataset :: "h5_type \<Rightarrow> pyval \<Rightarrow> dataset" where
  "scalar_dataset ty v = \<lparr>ds_type = Some ty, ds_data = Scalar v, ds_attrs = Map.empty\<rparr>"

definition plain_names :: h5_accepts where
  "plain_names f name ds =
     ((name = ''flag'' \<or> name = ''n'' \<or> name = ''name'') \<and> f name = None)"

text \<open>
  The results tree as the layout describes it. \<open>decimal\<close> is the number a string of
  digits denotes; \<open>names_in\<close> are the entries of a directory, none for a path that
  cannot be listed; \<open>tree_rids pat root\<close> are the numbers \<open>decimal (take 9 x)\<close> of all
  entries \<open>x\<close> matching \<open>pat\<close> in the directories \<open>root/df/mf\<close> with \<open>df\<close> matching
  the day pattern and \<open>mf\<close> the minute pattern; \<open>max_rid\<close> is their maximum, or
  \<open>-1\<close> when there are none.
\<close>

definition decimal :: "string \<Rightarrow> nat" where
  "decimal s = foldl (\<lambda>a c. 10 * a + digit_value c) 0 s"

definition names_in :: "node option \<Rightarrow> string list" where
  "names_in path = (case listdir path of Inl e \<Rightarrow> [] | Inr names \<Rightarrow> names)"

definition file_rids :: "re_token list \<Rightarrow> string list \<Rightarrow> int list" where
  "file_rids pat names = map (\<lambda>x. int (decimal (take 9 x))) (filter (fullmatch pat) names)"

definition minute_rids :: "re_token list \<Rightarrow> node option \<Rightarrow> string list \<Rightarrow> int list" where
  "minute_rids pat day_path mfs =
     concat (map (\<lambda>mf. file_rids pat (names_in (child day_path mf))) mfs)"

definition day_rids :: "re_token list \<Rightarrow> node option \<Rightarrow> string list \<Rightarrow> int list" where
  "day_rids pat root dfs =
     concat (map (\<lambda>df. minute_rids pat (child root df)
                          (filter (fullmatch minute_pattern) (names_in (child root df)))) dfs)"

definition tree_rids :: "re_token list \<Rightarrow> node option \<Rightarrow> int list" where
  "tree_rids pat root = day_rids pat root (filter (fullmatch day_pattern) (names_in root))"

definition max_rid :: "re_token list \<Rightarrow> node option \<Rightarrow> int" where
  "max_rid pat root = Max (set (- 1 # tree_rids pat root))"

text \<open>
  The file pattern in the words of the specification,
  \<^verbatim>\<open><9-digit-zero-padded-RID>-<name>.<ext>\<close>: nine digits, a hyphen, a name, a dot and
  any extension.
\<close>

definition any_ext_pattern :: "re_token list" where
  "any_ext_pattern = replicate 9 Digit @ [Lit CHR ''-'', AnyStar, Lit CHR ''.'', AnyStar]"

text \<open>
  Sample file systems: nothing there yet; a results directory that cannot be read; a
  results tree with two result files among entries that do not fit the layout; a tree
  whose only file has another extension.
\<close>

definition fresh_fs :: filesystem where
  "fresh_fs = \<lparr>cache = NoFile, cache_writable = True, results = None\<rparr>"

definition locked_fs :: filesystem where
  "locked_fs = \<lparr>cache = NoFile, cache_writable = True, results = Some Locked\<rparr>"

definition sample_tree :: node where
  "sample_tree =
     Dir [(''README'', File),
          (''2016-05-03'', Locked),
          (''2016-05-04'',
             Dir [(''12-30'', Dir [(''000000003-bar.h5'', File),
                                   (''000000007-foo.h5'', File),
                                   (''000000009-foo.txt'', File),
                                   (''12-foo.h5'', File)]),
                  (''12-31'', File),
                  (''tmp'', Dir [(''000000011-x.h5'', File)])]),
          (''2016-5-4'', Dir [(''12-30'', Dir [(''000000012-y.h5'', File)])])]"

definition sample_fs :: filesystem where
  "sample_fs = \<lparr>cache = NoFile, cache_writable = True, results = Some sample_tree\<rparr>"

definition txt_fs :: filesystem where
  "txt_fs =
     \<lparr>cache = NoFile, cache_writable = True,
      results = Some (Dir [(''2016-05-04'', Dir [(''12-30'', Dir [(''000000009-foo.txt'', File)])])])\<rparr>"

text \<open>
  \<open>has_closing_call\<close>: the device is an RPC client or has a \<^verbatim>\<open>close\<close> attribute.
  \<open>caught\<close>: closing the device returns or raises an exception of class
  \<^verbatim>\<open>Exception\<close>.
\<close>

definition has_closing_call :: "device \<Rightarrow> bool" where
  "has_closing_call dev = (case closing_call dev of None \<Rightarrow> False | Some cr \<Rightarrow> True)"

definition caught :: "device \<Rightarrow> bool" where
  "caught dev = (case closing_call dev of Some RaisesBaseException \<Rightarrow> False | _ \<Rightarrow> True)"

text \<open>
  A sample run: a device database with four drivers (the closing of \<^verbatim>\<open>dds\<close>
  raises an \<^verbatim>\<open>Exception\<close>, \<^verbatim>\<open>table\<close> has no \<^verbatim>\<open>close\<close>, the closing of
  \<^verbatim>\<open>shutter\<close> is interrupted by an exception outside class \<^verbatim>\<open>Exception\<close>), a
  controller reached through two aliases and an entry of an unknown type; one virtual
  device; and a list of requests that asks for \<^verbatim>\<open>core\<close> twice and for two names
  that yield no device. \<open>interrupted_manager\<close> and \<open>interrupted_world\<close> are the
  manager and the world after \<^verbatim>\<open>core\<close> and then \<^verbatim>\<open>shutter\<close> were requested.
\<close>

definition sample_world :: world where
  "sample_world =
     \<lparr>instantiate = (\<lambda>module cl arguments.
         if cl = ''Core'' then Inr (Driver module cl (Some Returns))
         else if cl = ''DDS'' then Inr (Driver module cl (Some RaisesException))
         else if cl = ''Table'' then Inr (Driver module cl None)
         else if cl = ''Shutter'' then Inr (Driver module cl (Some RaisesBaseException))
         else Inl ImportError),
      connect = (\<lambda>cls host port target.
         if host = ''nowhere'' then Inl ConnectionError else Inr Returns),
      calls = []\<rparr>"

definition sample_ddb :: "string \<rightharpoonup> ddb_entry" where
  "sample_ddb =
     map_of
       [(''core'', Description (LocalDesc ''drivers'' ''Core'' [])),
        (''dds'', Description (LocalDesc ''drivers'' ''DDS'' [])),
        (''table'', Description (LocalDesc ''drivers'' ''Table'' [])),
        (''shutter'', Description (LocalDesc ''drivers'' ''Shutter'' [])),
        (''lda'', Description (ControllerDesc ''::1'' 3253 None False)),
        (''attenuator'', Alias ''lda2''),
        (''lda2'', Alias ''lda''),
        (''odd'', Description (OtherDesc ''remote''))]"

definition sample_virtual :: "string \<rightharpoonup> device" where
  "sample_virtual = [''scheduler'' \<mapsto> Driver ''worker'' ''Scheduler'' (Some Returns)]"

definition sample_names :: "string list" where
  "sample_names =
     [''core'', ''scheduler'', ''dds'', ''odd'', ''table'', ''core'', ''attenuator'', ''none'']"

definition core_dev :: device where
  "core_dev = Driver ''drivers'' ''Core'' (Some Returns)"

definition dds_dev :: device where
  "dds_dev = Driver ''drivers'' ''DDS'' (Some RaisesException)"

definition table_dev :: device where
  "table_dev = Driver ''drivers'' ''Table'' None"

definition lda_dev :: device where
  "lda_dev = RPC Client ''::1'' 3253 AutoTarget Returns"

definition shutter_dev :: device where
  "shutter_dev = Driver ''drivers'' ''Shutter'' (Some RaisesBaseException)"

definition interrupted_manager :: DeviceManager where
  "interrupted_manager =
     \<lparr>ddb = sample_ddb, virtual_devices = sample_virtual,
      active_devices = [(''core'', core_dev), (''shutter'', shutter_dev)]\<rparr>"

definition interrupted_world :: world where
  "interrupted_world = sample_world\<lparr>calls := [Created core_dev, Created shutter_dev]\<rparr>"

section \<open>Properties of the dataset manager\<close>

text \<open>Item assignment on a list: in range it writes, out of range it raises.\<close>

lemma list_setitem_in_range:
  "- int (length xs) \<le> i \<Longrightarrow> i < int (length xs) \<Longrightarrow> list_setitem xs i v = Inr (written xs i v)"
  by (auto simp: list_setitem_def written_def Let_def)

lemma list_setitem_out_of_range:
  "i < - int (length xs) \<or> int (length xs) \<le> i \<Longrightarrow> list_setitem xs i v = Inl IndexError"
  by (auto simp: list_setitem_def Let_def)

lemma list_setitem_Inr:
  "list_setitem xs i v = Inr ys \<Longrightarrow>
   - int (length xs) \<le> i \<and> i < int (length xs) \<and> ys = written xs i v"
  by (auto simp: list_setitem_def written_def Let_def split: if_splits)

lemma written_nth:
  "0 \<le> i \<Longrightarrow> i < int (length xs) \<Longrightarrow> written xs i v ! nat i = v"
  by (simp add: written_def)

lemma written_nth_negative:
  "- int (length xs) \<le> i \<Longrightarrow> i < 0 \<Longrightarrow> written xs i v ! nat (i + int (length xs)) = v"
  by (simp add: written_def)

text \<open>
  Claim C1, as amended. Where the item assignment \<^verbatim>\<open>c[index] = value\<close> on a
  container \<open>c\<close> succeeds, \<^verbatim>\<open>mutate(key, index, value)\<close> writes one container and no
  other: the container of the key's broadcast entry if the key is in the broadcast
  mapping, where the write is also published; the container of the key's local entry
  if the key is in the local mapping and not in the broadcast mapping. Broadcast is
  preferred over local: with the key in both mappings, the container of the local
  entry stays as it was unless it is the very container of the broadcast entry. The
  two dictionaries themselves do not change. On a list the assignment succeeds when
  the index is in range, and puts \<open>value\<close> at \<open>index\<close>.
\<close>

theorem C1_mutate_prefers_broadcast:
  assumes "container_setitem np (heap self a) index v = Inr c"
  shows "(broadcast self key = Some (p, PRef a) \<longrightarrow>
            DatasetManager_mutate np self key index v =
              (None, self\<lparr>heap := (heap self)(a := c),
                          published := published self @
                            [\<lparr>mod_path = [PKey key, PIdx 1], mod_key = PIdx index,
                              mod_value = v\<rparr>]\<rparr>)) \<and>
         (broadcast self key = None \<and> local self key = Some (PRef a) \<longrightarrow>
            DatasetManager_mutate np self key index v =
              (None, self\<lparr>heap := (heap self)(a := c)\<rparr>)) \<and>
         (broadcast self key = Some (p, PRef a) \<and> local self key = Some (PRef b) \<longrightarrow>
            heap (snd (DatasetManager_mutate np self key index v)) b =
              (if b = a then c else heap self b)) \<and>
         (heap self a = ListObj xs \<longrightarrow>
            - int (length xs) \<le> index \<and> index < int (length xs) \<and>
            c = ListObj (written xs index v))"
proof (intro conjI impI)
  assume "broadcast self key = Some (p, PRef a)"
  with assms
  show "DatasetManager_mutate np self key index v =
          (None, self\<lparr>heap := (heap self)(a := c),
                      published := published self @
                        [\<lparr>mod_path = [PKey key, PIdx 1], mod_key = PIdx index,
                          mod_value = v\<rparr>]\<rparr>)"
    by (simp add: DatasetManager_mutate_def py_setitem_def)
next
  assume "broadcast self key = None \<and> local self key = Some (PRef a)"
  with assms
  show "DatasetManager_mutate np self key index v = (None, self\<lparr>heap := (heap self)(a := c)\<rparr>)"
    by (simp add: DatasetManager_mutate_def py_setitem_def)
next
  assume "broadcast self key = Some (p, PRef a) \<and> local self key = Some (PRef b)"
  with assms
  show "heap (snd (DatasetManager_mutate np self key index v)) b =
          (if b = a then c else heap self b)"
    by (simp add: DatasetManager_mutate_def py_setitem_def)
next
  assume l: "heap self a = ListObj xs"
  with assms obtain ys where "list_setitem xs index v = Inr ys" "c = ListObj ys"
    by (auto simp: container_setitem_def split: sum.splits)
  with list_setitem_Inr [of xs index v ys]
  show "- int (length xs) \<le> index" "index < int (length xs)" "c = ListObj (written xs index v)"
    by simp_all
qed

text \<open>
  The theorem at work. On \<open>both_state\<close> the list of the broadcast entry (address 0)
  is written and the list of the local entry (address 2) is not. On \<open>shared_state\<close>
  the one list of both entries is written, through the broadcast mapping. On
  \<open>local_only_state\<close> the list of the local entry is written, at index \<open>-1\<close>.
\<close>

theorem C1_witness:
  "DatasetManager_mutate no_arrays both_state ''k'' 0 (PInt 9) =
     (None, both_state\<lparr>heap := two_lists(0 := ListObj [PInt 9]),
                       published := published both_state @
                         [\<lparr>mod_path = [PKey ''k'', PIdx 1], mod_key = PIdx 0,
                           mod_value = PInt 9\<rparr>]\<rparr>) \<and>
   heap (snd (DatasetManager_mutate no_arrays both_state ''k'' 0 (PInt 9))) 2 =
     ListObj [PInt 2] \<and>
   local shared_state ''k'' = Some (PRef 0) \<and>
   heap (snd (DatasetManager_mutate no_arrays shared_state ''k'' 0 (PInt 9))) 0 =
     ListObj [PInt 9] \<and>
   DatasetManager_mutate no_arrays local_only_state ''k'' (- 1) (PInt 9) =
     (None, local_only_state\<lparr>heap := two_lists(2 := ListObj [PInt 9])\<rparr>)"
proof -
  have b: "broadcast both_state ''k'' = Some (False, PRef 0)"
    "local both_state ''k'' = Some (PRef 2)" "heap both_state = two_lists"
    by (simp_all add: both_state_def DatasetManager_set_def DatasetManager_init_def)
  have s: "broadcast shared_state ''k'' = Some (False, PRef 0)"
    "local shared_state ''k'' = Some (PRef 0)" "heap shared_state = two_lists"
    by (simp_all add: shared_state_def DatasetManager_set_def DatasetManager_init_def)
  have l: "broadcast local_only_state ''k'' = None"
    "local local_only_state ''k'' = Some (PRef 2)" "heap local_only_state = two_lists"
    by (simp_all add: local_only_state_def DatasetManager_set_def DatasetManager_init_def)
  have t: "two_lists 0 = ListObj [PInt 1]" "two_lists 2 = ListObj [PInt 2]"
    by (simp_all add: two_lists_def)
  have w0: "container_setitem no_arrays (ListObj [PInt 1]) 0 (PInt 9) = Inr (ListObj [PInt 9])"
    by (simp add: container_setitem_def list_setitem_def)
  have w2: "container_setitem no_arrays (ListObj [PInt 2]) (- 1) (PInt 9) = Inr (ListObj [PInt 9])"
    by (simp add: container_setitem_def list_setitem_def)
  show ?thesis
    using C1_mutate_prefers_broadcast
            [of no_arrays both_state 0 0 "PInt 9" "ListObj [PInt 9]" "''k''" False 2 "[PInt 1]"]
      C1_mutate_prefers_broadcast
            [of no_arrays shared_state 0 0 "PInt 9" "ListObj [PInt 9]" "''k''" False 0 "[PInt 1]"]
      C1_mutate_prefers_broadcast
            [of no_arrays local_only_state 2 "- 1" "PInt 9" "ListObj [PInt 9]" "''k''" False 2
                "[PInt 2]"]
    by (simp add: b s l t w0 w2)
qed

text \<open>
  Claim C1 as stated fails on \<open>both_state\<close>: the key is in the local mapping, the
  call succeeds, and the local mapping's list (address 2) is left as it was; the value
  went into the list of the broadcast entry (address 0).
\<close>

theorem C1_counterexample:
  "local both_state ''k'' = Some (PRef 2) \<and>
   fst (DatasetManager_mutate no_arrays both_state ''k'' 0 (PInt 9)) = None \<and>
   heap (snd (DatasetManager_mutate no_arrays both_state ''k'' 0 (PInt 9))) 2 =
     heap both_state 2 \<and>
   elems (heap (snd (DatasetManager_mutate no_arrays both_state ''k'' 0 (PInt 9))) 2) ! 0 \<noteq>
     PInt 9 \<and>
   elems (heap (snd (DatasetManager_mutate no_arrays both_state ''k'' 0 (PInt 9))) 0) ! 0 =
     PInt 9"
  by (simp add: both_state_def DatasetManager_set_def DatasetManager_init_def two_lists_def
      empty_heap_def DatasetManager_mutate_def py_setitem_def container_setitem_def
      list_setitem_def Let_def)

text \<open>
  Claim C6. For every key and value, \<^verbatim>\<open>set(key, value, persist=True)\<close>, whatever
  \<^verbatim>\<open>broadcast\<close> and \<^verbatim>\<open>save\<close> are, writes the pair \<open>(True, value)\<close> into the
  broadcast mapping under the key and forwards that write to the publish collaborator.
\<close>

theorem C6_set_persist_forces_broadcast:
  "broadcast (DatasetManager_set self key v bc True save) key = Some (True, v) \<and>
   published (DatasetManager_set self key v bc True save) =
     published self @
       [\<lparr>mod_path = [], mod_key = PKey key, mod_value = PTuple [PBool True, v]\<rparr>]"
  by (simp add: DatasetManager_set_def Let_def)

text \<open>
  Claim C7. For every key that is in neither the local nor the broadcast mapping,
  \<^verbatim>\<open>mutate(key, index, value)\<close> raises \<^verbatim>\<open>KeyError\<close> and leaves the whole state, so
  both mappings and their keys, as it was.
\<close>

theorem C7_mutate_absent_key:
  "local self key = None \<Longrightarrow> broadcast self key = None \<Longrightarrow>
   DatasetManager_mutate np self key index v = (Some KeyError, self)"
  by (simp add: DatasetManager_mutate_def)

text \<open>The theorem on a manager that was just built.\<close>

theorem C7_witness:
  "local (DatasetManager_init two_lists) ''k'' = None \<and>
   broadcast (DatasetManager_init two_lists) ''k'' = None \<and>
   DatasetManager_mutate no_arrays (DatasetManager_init two_lists) ''k'' 0 (PInt 9) =
     (Some KeyError, DatasetManager_init two_lists)"
  using C7_mutate_absent_key [of "DatasetManager_init two_lists" "''k''" no_arrays 0 "PInt 9"]
  by (simp add: DatasetManager_init_def)

text \<open>
  Claim C10. If the key is in the local mapping with the value \<^verbatim>\<open>None\<close> and is not
  in the broadcast mapping, \<^verbatim>\<open>mutate(key, index, value)\<close> raises the same
  \<^verbatim>\<open>KeyError\<close> as for a missing key, and changes nothing.
\<close>

theorem C10_mutate_local_None:
  "local self key = Some PNone \<Longrightarrow> broadcast self key = None \<Longrightarrow>
   DatasetManager_mutate np self key index v = (Some KeyError, self)"
  by (simp add: DatasetManager_mutate_def)

text \<open>The theorem on \<open>none_state\<close>, where \<^verbatim>\<open>set("k", None)\<close> was called.\<close>

theorem C10_witness:
  "local none_state ''k'' = Some PNone \<and> broadcast none_state ''k'' = None \<and>
   DatasetManager_mutate no_arrays none_state ''k'' 0 (PInt 9) = (Some KeyError, none_state)"
proof -
  have "local none_state ''k'' = Some PNone" "broadcast none_state ''k'' = None"
    by (simp_all add: none_state_def DatasetManager_set_def DatasetManager_init_def)
  then show ?thesis
    using C10_mutate_local_None [of none_state "''k''" no_arrays 0 "PInt 9"] by simp
qed

section \<open>Properties of the serialiser\<close>

text \<open>
  One item of the dictionary: a boolean, an integer that fits, one that does not.
  The dataset the library is asked for is the scalar of the converted value.
\<close>

lemma set_attr_created:
  "set_attr (f(name \<mapsto> ds)) name flag v = f(name \<mapsto> ds\<lparr>ds_attrs := (ds_attrs ds)(flag \<mapsto> v)\<rparr>)"
  by (simp add: set_attr_def)

lemma hdf5_item_bool:
  "hdf5_item accepts h f name (PBool b) =
     (if accepts f name (scalar_dataset STD_I8BE (PNp np_int8 (if b then 1 else 0)))
      then Inr (f(name \<mapsto> bool_dataset b)) else Inl H5Error)"
  by (simp add: hdf5_item_def convert_flag_def np_int8_of_def store_data_def
      isinstance_ndarray_def create_dataset_def set_attr_created bool_dataset_def
      scalar_dataset_def)

lemma hdf5_item_int:
  "hdf5_item accepts h f name (PInt i) =
     (if i < - (2 ^ 63) \<or> 2 ^ 63 \<le> i then Inl OverflowError
      else if accepts f name (scalar_dataset STD_I64BE (PNp np_int64 i))
      then Inr (f(name \<mapsto> int_dataset i)) else Inl H5Error)"
  by (auto simp add: hdf5_item_def convert_flag_def np_int64_of_def store_data_def
      isinstance_ndarray_def create_dataset_def set_attr_created int_dataset_def
      scalar_dataset_def Let_def)

text \<open>An item touches the dataset of its own name only.\<close>

lemma store_data_Inr:
  "store_data accepts h f name data = Inr f1 \<Longrightarrow> \<exists>ds. f1 = f(name \<mapsto> ds)"
  by (auto simp: store_data_def create_dataset_def Let_def
      split: if_splits pyval.splits sum.splits option.splits)

lemma hdf5_item_other_names:
  assumes "hdf5_item accepts h f name data = Inr f1" and "n \<noteq> name"
  shows "f1 n = f n"
proof (cases "convert_flag data")
  case (Inl e)
  with assms(1) show ?thesis by (simp add: hdf5_item_def)
next
  case (Inr df)
  obtain d flag where df: "df = (d, flag)" by (cases df)
  show ?thesis
  proof (cases "store_data accepts h f name d")
    case (Inl e)
    with assms(1) Inr df show ?thesis by (simp add: hdf5_item_def)
  next
    case st: (Inr f0)
    from store_data_Inr [OF st] obtain ds where f0: "f0 = f(name \<mapsto> ds)" by blast
    from assms(1) Inr df st have
      "f1 = (case flag of None \<Rightarrow> f0 | Some fl \<Rightarrow> set_attr f0 name fl (PNp np_int8 1))"
      by (simp add: hdf5_item_def split: option.splits)
    with f0 assms(2) show ?thesis
      by (cases flag) (simp_all add: set_attr_created)
  qed
qed

lemma result_dict_other_names:
  "result_dict_to_hdf5 accepts h f rd = (None, f') \<Longrightarrow> n \<notin> fst ` set rd \<Longrightarrow> f' n = f n"
proof (induction rd arbitrary: f)
  case Nil
  then show ?case by simp
next
  case (Cons item rd)
  obtain name data where item: "item = (name, data)" by (cases item)
  with Cons.prems(1) obtain f1 where
    f1: "hdf5_item accepts h f name data = Inr f1" and
    rest: "result_dict_to_hdf5 accepts h f1 rd = (None, f')"
    by (auto split: sum.splits)
  from Cons.prems(2) item have "n \<noteq> name" "n \<notin> fst ` set rd" by auto
  with Cons.IH [OF rest] hdf5_item_other_names [OF f1] show ?case by simp
qed

text \<open>
  A whole dictionary, its keys being distinct: when the serialiser returns, each item
  is in the container as its own step left it.
\<close>

lemma result_dict_item:
  assumes "result_dict_to_hdf5 accepts h f rd = (None, f')"
      and "distinct (map fst rd)" and "(name, data) \<in> set rd"
  shows "\<exists>f0 f1. hdf5_item accepts h f0 name data = Inr f1 \<and> f' name = f1 name"
  using assms
proof (induction rd arbitrary: f)
  case Nil
  then show ?case by simp
next
  case (Cons item rd)
  obtain name0 data0 where item: "item = (name0, data0)" by (cases item)
  with Cons.prems(1) obtain f1 where
    f1: "hdf5_item accepts h f name0 data0 = Inr f1" and
    rest: "result_dict_to_hdf5 accepts h f1 rd = (None, f')"
    by (auto split: sum.splits)
  show ?case
  proof (cases "(name, data) = (name0, data0)")
    case True
    from Cons.prems(2) item have "name0 \<notin> fst ` set rd" by simp
    from result_dict_other_names [OF rest this] True f1 show ?thesis by auto
  next
    case False
    with Cons.prems(3) item have "(name, data) \<in> set rd" by auto
    moreover from Cons.prems(2) have "distinct (map fst rd)" by simp
    ultimately show ?thesis using Cons.IH [OF rest] by blast
  qed
qed

lemma result_dict_bool:
  assumes "result_dict_to_hdf5 accepts h f rd = (None, f')"
      and "distinct (map fst rd)" and "(n, PBool c) \<in> set rd"
  shows "f' n = Some (bool_dataset c)"
proof -
  from result_dict_item [OF assms] obtain f0 f1 where
    "hdf5_item accepts h f0 n (PBool c) = Inr f1" "f' n = f1 n" by blast
  then show ?thesis
    by (auto simp: hdf5_item_bool split: if_splits)
qed

lemma result_dict_int:
  assumes "result_dict_to_hdf5 accepts h f rd = (None, f')"
      and "distinct (map fst rd)" and "(n, PInt j) \<in> set rd"
  shows "- (2 ^ 63) \<le> j \<and> j < 2 ^ 63 \<and> f' n = Some (int_dataset j)"
proof -
  from result_dict_item [OF assms] obtain f0 f1 where
    "hdf5_item accepts h f0 n (PInt j) = Inr f1" "f' n = f1 n" by blast
  then show ?thesis
    by (auto simp: hdf5_item_int split: if_splits)
qed

text \<open>
  Claim C8, as amended. A boolean, although it passes the integer test too, is taken
  by the boolean branch: where the container library creates the dataset, it is stored
  as a 1-byte signed integer dataset valued 0 or 1 with the attribute \<^verbatim>\<open>py_bool\<close>,
  not as a 64-bit integer. A Python integer that is not a boolean and lies in the
  signed 64-bit range is stored, where the library creates the dataset, as a 64-bit
  big-endian signed integer dataset with the attribute \<^verbatim>\<open>py_int\<close>. And when the
  serialiser returns from a mapping, every boolean of the mapping is in the container
  in the first form and every other Python integer of the mapping lies in the signed
  64-bit range and is in the container in the second form.
\<close>

theorem C8_bool_before_int:
  assumes "distinct (map fst rd)"
  shows "isinstance_int (PBool b) \<and>
         (accepts f name (scalar_dataset STD_I8BE (PNp np_int8 (if b then 1 else 0))) \<longrightarrow>
            hdf5_item accepts h f name (PBool b) = Inr (f(name \<mapsto> bool_dataset b))) \<and>
         (- (2 ^ 63) \<le> i \<and> i < 2 ^ 63 \<and>
          accepts f name (scalar_dataset STD_I64BE (PNp np_int64 i)) \<longrightarrow>
            hdf5_item accepts h f name (PInt i) = Inr (f(name \<mapsto> int_dataset i))) \<and>
         (result_dict_to_hdf5 accepts h f rd = (None, f') \<longrightarrow>
            (\<forall>n c. (n, PBool c) \<in> set rd \<longrightarrow> f' n = Some (bool_dataset c)) \<and>
            (\<forall>n j. (n, PInt j) \<in> set rd \<longrightarrow>
               - (2 ^ 63) \<le> j \<and> j < 2 ^ 63 \<and> f' n = Some (int_dataset j)))"
proof -
  have 1: "isinstance_int (PBool b)" by simp
  have 2: "accepts f name (scalar_dataset STD_I8BE (PNp np_int8 (if b then 1 else 0))) \<longrightarrow>
            hdf5_item accepts h f name (PBool b) = Inr (f(name \<mapsto> bool_dataset b))"
    by (simp add: hdf5_item_bool)
  have 3: "- (2 ^ 63) \<le> i \<and> i < 2 ^ 63 \<and>
          accepts f name (scalar_dataset STD_I64BE (PNp np_int64 i)) \<longrightarrow>
            hdf5_item accepts h f name (PInt i) = Inr (f(name \<mapsto> int_dataset i))"
    by (simp add: hdf5_item_int)
  have 4: "result_dict_to_hdf5 accepts h f rd = (None, f') \<longrightarrow>
            (\<forall>n c. (n, PBool c) \<in> set rd \<longrightarrow> f' n = Some (bool_dataset c)) \<and>
            (\<forall>n j. (n, PInt j) \<in> set rd \<longrightarrow>
               - (2 ^ 63) \<le> j \<and> j < 2 ^ 63 \<and> f' n = Some (int_dataset j))"
    using result_dict_bool [OF _ assms] result_dict_int [OF _ assms] by blast
  from 1 2 3 4 show ?thesis by blast
qed

text \<open>
  The theorem on \<^verbatim>\<open>{"flag": True, "n": 5}\<close>, written into an empty container, and
  what \<^verbatim>\<open>{"flag": True}\<close> leaves there.
\<close>

theorem C8_witness:
  "result_dict_to_hdf5 plain_names empty_heap Map.empty [(''flag'', PBool True), (''n'', PInt 5)] =
     (None, [''flag'' \<mapsto> bool_dataset True, ''n'' \<mapsto> int_dataset 5]) \<and>
   result_dict_to_hdf5 plain_names empty_heap Map.empty [(''flag'', PBool True)] =
     (None, [''flag'' \<mapsto> bool_dataset True]) \<and>
   ds_type (bool_dataset True) = Some STD_I8BE \<and>
   ds_data (bool_dataset True) = Scalar (PNp np_int8 1) \<and>
   ds_attrs (bool_dataset True) ''py_bool'' = Some (PNp np_int8 1) \<and>
   ds_type (int_dataset 5) = Some STD_I64BE \<and>
   ds_attrs (int_dataset 5) ''py_int'' = Some (PNp np_int8 1)"
proof -
  let ?rd = "[(''flag'', PBool True), (''n'', PInt 5)]"
  let ?f1 = "[''flag'' \<mapsto> bool_dataset True]"
  let ?f2 = "[''flag'' \<mapsto> bool_dataset True, ''n'' \<mapsto> int_dataset 5]"
  have d: "distinct (map fst ?rd)" by simp
  have a1: "plain_names Map.empty ''flag''
              (scalar_dataset STD_I8BE (PNp np_int8 (if True then 1 else 0)))"
    by (simp add: plain_names_def)
  have a2: "- (2 ^ 63) \<le> (5::int) \<and> (5::int) < 2 ^ 63 \<and>
            plain_names ?f1 ''n'' (scalar_dataset STD_I64BE (PNp np_int64 5))"
    by (simp add: plain_names_def)
  note t1 = C8_bool_before_int
              [OF d, of True plain_names Map.empty "''flag''" empty_heap 5 ?f2]
  note t2 = C8_bool_before_int
              [OF d, of True plain_names ?f1 "''n''" empty_heap 5 ?f2]
  have s1: "hdf5_item plain_names empty_heap Map.empty ''flag'' (PBool True) = Inr ?f1"
    using t1 [THEN conjunct2, THEN conjunct1] a1 by blast
  have s2: "hdf5_item plain_names empty_heap ?f1 ''n'' (PInt 5) = Inr ?f2"
    using t2 [THEN conjunct2, THEN conjunct2, THEN conjunct1] a2 by blast
  have r2: "result_dict_to_hdf5 plain_names empty_heap Map.empty ?rd = (None, ?f2)"
    by (simp only: result_dict_to_hdf5.simps s1 s2 sum.case)
  have r1: "result_dict_to_hdf5 plain_names empty_heap Map.empty [(''flag'', PBool True)] =
              (None, ?f1)"
    by (simp only: result_dict_to_hdf5.simps s1 sum.case)
  have fields: "ds_type (bool_dataset True) = Some STD_I8BE"
    "ds_data (bool_dataset True) = Scalar (PNp np_int8 1)"
    "ds_attrs (bool_dataset True) ''py_bool'' = Some (PNp np_int8 1)"
    "ds_type (int_dataset 5) = Some STD_I64BE"
    "ds_attrs (int_dataset 5) ''py_int'' = Some (PNp np_int8 1)"
    by (simp_all add: bool_dataset_def int_dataset_def)
  from r1 r2 fields show ?thesis by blast
qed

text \<open>
  Claim C8 as stated fails on \<^verbatim>\<open>{"n": 2 ** 63, "flag": True}\<close>: the conversion of the
  integer to 64 bits raises \<^verbatim>\<open>OverflowError\<close>, the integer is not stored, and the
  boolean after it is not stored either.
\<close>

theorem C8_counterexample:
  "result_dict_to_hdf5 plain_names empty_heap Map.empty
     [(''n'', PInt (2 ^ 63)), (''flag'', PBool True)] =
     (Some OverflowError, Map.empty)"
  by (simp add: hdf5_item_int)

text \<open>
  Strings. For a string of one-byte code points that is not empty, the declared
  length, which is the number of code points, is the number of bytes stored.
\<close>

lemma str_encode_ascii:
  "is_ascii s \<Longrightarrow> \<exists>bs. str_encode s = Inr bs \<and> length bs = length s"
  by (induction s) (auto simp: is_ascii_def utf8_char_def)

lemma hdf5_item_ascii_str:
  assumes "is_ascii s" and "s \<noteq> []"
  shows "\<exists>bs. str_encode s = Inr bs \<and> length bs = length s \<and>
           hdf5_item accepts h f name (PStr s) =
             (if accepts f name (scalar_dataset (FixedString (length bs)) (PBytes bs))
              then Inr (f(name \<mapsto> scalar_dataset (FixedString (length bs)) (PBytes bs)))
              else Inl H5Error)"
proof -
  from str_encode_ascii [OF assms(1)] obtain bs
    where bs: "str_encode s = Inr bs" "length bs = length s" by blast
  with assms(2) show ?thesis
    by (simp add: hdf5_item_def convert_flag_def store_data_def isinstance_ndarray_def
        create_dataset_def scalar_dataset_def)
qed

text \<open>The empty string asks for the type \<^verbatim>\<open>"S0"\<close>, which the library refuses.\<close>

lemma hdf5_item_empty_str: "hdf5_item accepts h f name (PStr []) = Inl ValueError"
  by (simp add: hdf5_item_def convert_flag_def store_data_def isinstance_ndarray_def
      create_dataset_def)

text \<open>Serialising \<^verbatim>\<open>{"name": "abc"}\<close> gives a string dataset of declared length 3.\<close>

lemma serialise_abc:
  "result_dict_to_hdf5 plain_names empty_heap Map.empty [(''name'', PStr [97, 98, 99])] =
     (None, [''name'' \<mapsto> \<lparr>ds_type = Some (FixedString 3),
                             ds_data = Scalar (PBytes [97, 98, 99]),
                             ds_attrs = Map.empty\<rparr>])"
  by (simp add: hdf5_item_def convert_flag_def store_data_def isinstance_ndarray_def
        create_dataset_def utf8_char_def numeral_3_eq_3 plain_names_def)

text \<open>
  Claim C9 at the string of the single code point 233 (e with an acute accent): the
  dataset is declared with length 1, the number of code points, while the encoded
  string assigned to it has 2 bytes.
\<close>

theorem C9_declared_length_is_not_byte_length:
  "result_dict_to_hdf5 plain_names empty_heap Map.empty [(''name'', PStr [233])] =
     (None, [''name'' \<mapsto> \<lparr>ds_type = Some (FixedString 1),
                             ds_data = Scalar (PBytes [0xC3, 0xA9]),
                             ds_attrs = Map.empty\<rparr>]) \<and>
   str_encode [233] = Inr [0xC3, 0xA9] \<and>
   length [0xC3, 0xA9 :: 8 word] \<noteq> 1"
  by (simp add: hdf5_item_def convert_flag_def store_data_def isinstance_ndarray_def
        create_dataset_def utf8_char_def plain_names_def)

section \<open>Properties of the run id counter\<close>

subsection \<open>Writing and reading a number\<close>

lemma of_char_digit_char: "d < 10 \<Longrightarrow> of_char (digit_char d) = 48 + d"
  by (simp add: digit_char_def)

lemma is_digit_digit_char: "d < 10 \<Longrightarrow> is_digit (digit_char d)"
  by (simp add: is_digit_def of_char_digit_char)

lemma digit_value_digit_char: "d < 10 \<Longrightarrow> digit_value (digit_char d) = d"
  by (simp add: digit_value_def of_char_digit_char)

lemma is_digit_not_space: "is_digit c \<Longrightarrow> \<not> is_space c"
  by (auto simp: is_digit_def is_space_def Let_def)

lemma is_digit_not_sign: "is_digit c \<Longrightarrow> c \<noteq> CHR ''-'' \<and> c \<noteq> CHR ''+''"
  by (auto simp: is_digit_def)

lemma minus_not_space: "\<not> is_space CHR ''-''"
  by (simp add: is_space_def)

lemma newline_is_space: "is_space (CHR 0x0A)"
  by (simp add: is_space_def)

lemma digits_from_all_digits:
  "\<forall>c\<in>set xs. is_digit c \<Longrightarrow>
   digits_from acc xs = Some (foldl (\<lambda>a c. 10 * a + digit_value c) acc xs)"
  by (induction acc xs rule: digits_from.induct) auto

lemma parse_decimal_all_digits:
  "xs \<noteq> [] \<Longrightarrow> \<forall>c\<in>set xs. is_digit c \<Longrightarrow> parse_decimal xs = Some (decimal xs)"
  by (cases xs) (auto simp: parse_decimal_def decimal_def digits_from_all_digits)

lemma str_nat_digits: "\<forall>c\<in>set (str_nat n). is_digit c"
proof (induction n rule: str_nat.induct)
  case (1 n)
  show ?case
  proof (cases "n < 10")
    case True
    then show ?thesis by (subst str_nat.simps) (simp add: is_digit_digit_char)
  next
    case False
    with 1 show ?thesis by (subst str_nat.simps) (simp add: is_digit_digit_char)
  qed
qed

lemma str_nat_not_empty: "str_nat n \<noteq> []"
  by (subst str_nat.simps) simp

lemma decimal_str_nat: "decimal (str_nat n) = n"
proof (induction n rule: str_nat.induct)
  case (1 n)
  show ?case
  proof (cases "n < 10")
    case True
    then show ?thesis
      by (subst str_nat.simps) (simp add: decimal_def digit_value_digit_char)
  next
    case False
    with 1 have "decimal (str_nat (n div 10)) = n div 10" by simp
    with False show ?thesis
      by (subst str_nat.simps) (simp add: decimal_def digit_value_digit_char)
  qed
qed

lemma py_strip_id:
  assumes "s \<noteq> []" "\<not> is_space (hd s)" "\<not> is_space (last s)"
  shows "py_strip s = s"
proof -
  from assms have "dropWhile is_space s = s"
    by (cases s) auto
  moreover from assms have "dropWhile is_space (rev s) = rev s"
    by (cases "rev s") (auto simp: last_rev [symmetric] simp del: last_rev)
  ultimately show ?thesis by (simp add: py_strip_def)
qed

lemma py_strip_newline:
  assumes "s \<noteq> []" "\<not> is_space (hd s)" "\<not> is_space (last s)"
  shows "py_strip (s @ [CHR 0x0A]) = s"
proof -
  from assms have "dropWhile is_space (s @ [CHR 0x0A]) = s @ [CHR 0x0A]"
    by (cases s) auto
  moreover from assms have "dropWhile is_space (rev s) = rev s"
    by (cases "rev s") (auto simp: last_rev [symmetric] simp del: last_rev)
  ultimately show ?thesis by (simp add: py_strip_def newline_is_space)
qed


lemma py_int_all_digits:
  assumes "xs \<noteq> []" "\<forall>c\<in>set xs. is_digit c"
  shows "py_int xs = Inr (int (decimal xs))"
proof -
  from assms have "is_digit (hd xs)" "is_digit (last xs)" by simp_all
  then have "py_strip xs = xs"
    using assms(1) by (simp add: py_strip_id is_digit_not_space)
  moreover obtain c cs where xs: "xs = c # cs" using assms(1) by (cases xs) auto
  moreover from xs assms(2) have "c \<noteq> CHR ''-''" "c \<noteq> CHR ''+''"
    by (simp_all add: is_digit_not_sign)
  ultimately show ?thesis
    using parse_decimal_all_digits [OF assms] by (simp add: py_int_def)
qed

lemma py_int_py_str: "py_int (py_str i @ [CHR 0x0A]) = Inr i"
proof (cases "i < 0")
  case False
  let ?s = "str_nat (nat i)"
  have d: "\<forall>c\<in>set ?s. is_digit c" and ne: "?s \<noteq> []"
    by (simp_all add: str_nat_digits str_nat_not_empty)
  then have "is_digit (hd ?s)" "is_digit (last ?s)" by simp_all
  then have strip: "py_strip (?s @ [CHR 0x0A]) = ?s"
    using ne by (simp add: py_strip_newline is_digit_not_space)
  obtain c cs where s: "?s = c # cs" using ne by (cases ?s) auto
  with d have "c \<noteq> CHR ''-''" "c \<noteq> CHR ''+''" by (simp_all add: is_digit_not_sign)
  moreover have "parse_decimal ?s = Some (nat i)"
    using parse_decimal_all_digits [OF ne d] by (simp add: decimal_str_nat)
  ultimately show ?thesis
    using False strip s by (simp add: py_int_def py_str_def)
next
  case True
  let ?s = "str_nat (nat (- i))"
  have d: "\<forall>c\<in>set ?s. is_digit c" and ne: "?s \<noteq> []"
    by (simp_all add: str_nat_digits str_nat_not_empty)
  then have "is_digit (last ?s)" by simp
  then have "\<not> is_space (last (CHR ''-'' # ?s))"
    using ne by (simp add: is_digit_not_space)
  then have strip: "py_strip ((CHR ''-'' # ?s) @ [CHR 0x0A]) = CHR ''-'' # ?s"
    by (intro py_strip_newline) (simp_all add: minus_not_space)
  have "parse_decimal ?s = Some (nat (- i))"
    using parse_decimal_all_digits [OF ne d] by (simp add: decimal_str_nat)
  then show ?thesis
    using True strip by (simp add: py_int_def py_str_def)
qed

subsection \<open>The scan computes the maximum\<close>

lemma fullmatch_digits:
  "fullmatch (replicate n Digit @ ts) s \<Longrightarrow>
   n \<le> length s \<and> (\<forall>c\<in>set (take n s). is_digit c)"
proof (induction n arbitrary: s)
  case 0
  then show ?case by simp
next
  case (Suc n)
  then show ?case by (cases s) auto
qed

lemma py_int_group1:
  assumes "fullmatch h5_pattern x"
  shows "py_int (group1 x) = Inr (int (decimal (take 9 x)))"
proof -
  from assms have "9 \<le> length x" "\<forall>c\<in>set (take 9 x). is_digit c"
    using fullmatch_digits [of 9 _ x] by (simp_all add: h5_pattern_def)
  then show ?thesis
    unfolding group1_def by (intro py_int_all_digits) auto
qed

lemma scan_files_fold:
  "scan_files r names = Inr (fold max (file_rids h5_pattern names) r)"
proof (induction names arbitrary: r)
  case Nil
  then show ?case by (simp add: file_rids_def)
next
  case (Cons x names)
  show ?case
  proof (cases "fullmatch h5_pattern x")
    case True
    have "(if r < int (decimal (take 9 x)) then int (decimal (take 9 x)) else r) =
          max (int (decimal (take 9 x))) r" by (simp add: max_def)
    with True Cons show ?thesis
      by (simp add: py_int_group1 file_rids_def)
  next
    case False
    with Cons show ?thesis by (simp add: file_rids_def)
  qed
qed

lemma scan_minutes_fold:
  "scan_minutes day_path r mfs = Inr (fold max (minute_rids h5_pattern day_path mfs) r)"
proof (induction mfs arbitrary: r)
  case Nil
  then show ?case by (simp add: minute_rids_def)
next
  case (Cons mf mfs)
  have step: "minute_rids h5_pattern day_path (mf # mfs) =
        file_rids h5_pattern (names_in (child day_path mf)) @ minute_rids h5_pattern day_path mfs"
    by (simp add: minute_rids_def)
  show ?case
  proof (cases "listdir (child day_path mf)")
    case (Inl e)
    with Cons show ?thesis by (simp add: step names_in_def file_rids_def)
  next
    case (Inr names)
    with Cons show ?thesis by (simp add: step names_in_def scan_files_fold)
  qed
qed

lemma scan_days_fold:
  "scan_days root r dfs = Inr (fold max (day_rids h5_pattern root dfs) r)"
proof (induction dfs arbitrary: r)
  case Nil
  then show ?case by (simp add: day_rids_def)
next
  case (Cons df dfs)
  have step: "day_rids h5_pattern root (df # dfs) =
        minute_rids h5_pattern (child root df)
          (filter (fullmatch minute_pattern) (names_in (child root df))) @
        day_rids h5_pattern root dfs"
    by (simp add: day_rids_def)
  show ?case
  proof (cases "listdir (child root df)")
    case (Inl e)
    with Cons show ?thesis by (simp add: step names_in_def minute_rids_def)
  next
    case (Inr names)
    with Cons show ?thesis by (simp add: step names_in_def scan_minutes_fold)
  qed
qed

lemma max_rid_fold: "max_rid pat root = fold max (tree_rids pat root) (- 1)"
  unfolding max_rid_def by (rule Max.set_eq_fold)

lemma last_rid_from_results_max:
  "last_rid_from_results fs = Inr (max_rid h5_pattern (results fs))"
proof (cases "listdir (results fs)")
  case (Inl e)
  then show ?thesis
    by (simp add: last_rid_from_results_def max_rid_fold tree_rids_def names_in_def day_rids_def)
next
  case (Inr names)
  then show ?thesis
    by (simp add: last_rid_from_results_def max_rid_fold tree_rids_def names_in_def
        scan_days_fold)
qed


subsection \<open>The counter\<close>

lemma update_cache_writable:
  "cache_writable fs \<Longrightarrow>
   update_cache fs rid = Inr (fs\<lparr>cache := Text (py_str rid @ [CHR 0x0A])\<rparr>)"
  by (simp add: update_cache_def)

lemma RIDCounter_get_writable:
  "cache_writable fs \<Longrightarrow>
   RIDCounter_get self fs =
     (Inr (next_rid self), self\<lparr>next_rid := next_rid self + 1\<rparr>,
      fs\<lparr>cache := Text (py_str (next_rid self) @ [CHR 0x0A])\<rparr>)"
  by (simp add: RIDCounter_get_def update_cache_writable Let_def)

lemma gets_writable:
  "cache_writable fs \<Longrightarrow>
   gets n self fs =
     (Inr (map (\<lambda>k. next_rid self + int k) [0..<n]),
      self\<lparr>next_rid := next_rid self + int n\<rparr>,
      (if n = 0 then fs
       else fs\<lparr>cache := Text (py_str (next_rid self + int n - 1) @ [CHR 0x0A])\<rparr>))"
proof (induction n arbitrary: self fs)
  case 0
  then show ?case by simp
next
  case (Suc n)
  let ?self1 = "self\<lparr>next_rid := next_rid self + 1\<rparr>"
  let ?fs1 = "fs\<lparr>cache := Text (py_str (next_rid self) @ [CHR 0x0A])\<rparr>"
  have w: "cache_writable ?fs1" using Suc.prems by simp
  have m: "map (\<lambda>k. next_rid self + int k) [0..<Suc n] =
           next_rid self # map (\<lambda>k. next_rid ?self1 + int k) [0..<n]"
    by (simp add: map_upt_Suc add.assoc del: upt_Suc)
  have g: "RIDCounter_get self fs = (Inr (next_rid self), ?self1, ?fs1)"
    by (rule RIDCounter_get_writable [OF Suc.prems])
  have step: "gets (Suc n) self fs =
      (Inr (next_rid self # map (\<lambda>k. next_rid ?self1 + int k) [0..<n]),
       ?self1\<lparr>next_rid := next_rid ?self1 + int n\<rparr>,
       (if n = 0 then ?fs1
        else ?fs1\<lparr>cache := Text (py_str (next_rid ?self1 + int n - 1) @ [CHR 0x0A])\<rparr>))"
    by (simp only: gets.simps g Suc.IH [OF w] prod.case sum.case)
  have c: "?self1\<lparr>next_rid := next_rid ?self1 + int n\<rparr> =
           self\<lparr>next_rid := next_rid self + int (Suc n)\<rparr>"
    by (simp add: add.commute add.left_commute)
  have f: "(if n = 0 then ?fs1
            else ?fs1\<lparr>cache := Text (py_str (next_rid ?self1 + int n - 1) @ [CHR 0x0A])\<rparr>) =
           fs\<lparr>cache := Text (py_str (next_rid self + int (Suc n) - 1) @ [CHR 0x0A])\<rparr>"
    by (simp add: add.commute add.left_commute)
  show ?case
    unfolding step c f m by simp
qed

lemma last_rid_from_cache_after_update:
  "last_rid_from_cache (fs\<lparr>cache := Text (py_str rid @ [CHR 0x0A])\<rparr>) = Inr rid"
  by (simp add: last_rid_from_cache_def py_int_py_str)

lemma RIDCounter_init_from_cache:
  "RIDCounter_init (fs\<lparr>cache := Text (py_str rid @ [CHR 0x0A])\<rparr>) =
     (Inr \<lparr>next_rid = rid + 1\<rparr>, fs\<lparr>cache := Text (py_str rid @ [CHR 0x0A])\<rparr>)"
  by (simp add: RIDCounter_init_def last_rid_def last_rid_from_cache_after_update)

lemma RIDCounter_init_no_cache:
  "cache fs = NoFile \<Longrightarrow> cache_writable fs \<Longrightarrow>
   RIDCounter_init fs =
     (Inr \<lparr>next_rid = max_rid h5_pattern (results fs) + 1\<rparr>,
      fs\<lparr>cache := Text (py_str (max_rid h5_pattern (results fs)) @ [CHR 0x0A])\<rparr>)"
  by (simp add: RIDCounter_init_def last_rid_def last_rid_from_cache_def
      last_rid_from_results_max update_cache_writable)

lemma max_rid_unlistable: "listdir root = Inl e \<Longrightarrow> max_rid pat root = - 1"
  by (simp add: max_rid_def tree_rids_def names_in_def day_rids_def)


text \<open>
  Claim C2. Where the cache file can be replaced: a counter built with no cache file
  and no results directory starts at 0, and any number \<open>n\<close> of calls of \<^verbatim>\<open>get\<close>
  return \<open>0, 1, ..., n - 1\<close>; and after any counter has returned the ids \<open>rids\<close> from
  one or more calls, a counter rebuilt from the cache file it left starts at
  \<open>last rids + 1\<close> and goes on from there without repetition or gap.
\<close>

theorem C2_run_ids_in_sequence:
  assumes "cache_writable fs"
  shows "(cache fs = NoFile \<and> results fs = None \<longrightarrow>
            RIDCounter_init fs =
              (Inr \<lparr>next_rid = 0\<rparr>, fs\<lparr>cache := Text (py_str (- 1) @ [CHR 0x0A])\<rparr>) \<and>
            fst (gets n \<lparr>next_rid = 0\<rparr> (fs\<lparr>cache := Text (py_str (- 1) @ [CHR 0x0A])\<rparr>)) =
              Inr (map int [0..<n])) \<and>
         (gets (Suc k) self fs = (Inr rids, self1, fs1) \<longrightarrow>
            RIDCounter_init fs1 = (Inr \<lparr>next_rid = last rids + 1\<rparr>, fs1) \<and>
            fst (gets m \<lparr>next_rid = last rids + 1\<rparr> fs1) =
              Inr (map (\<lambda>j. last rids + 1 + int j) [0..<m]))"
proof (intro conjI impI)
  assume a: "cache fs = NoFile \<and> results fs = None"
  then have "max_rid h5_pattern (results fs) = - 1"
    by (simp add: max_rid_unlistable)
  with a assms
  show "RIDCounter_init fs =
          (Inr \<lparr>next_rid = 0\<rparr>, fs\<lparr>cache := Text (py_str (- 1) @ [CHR 0x0A])\<rparr>)"
    by (simp add: RIDCounter_init_no_cache)
  from assms
  show "fst (gets n \<lparr>next_rid = 0\<rparr> (fs\<lparr>cache := Text (py_str (- 1) @ [CHR 0x0A])\<rparr>)) =
          Inr (map int [0..<n])"
    by (simp add: gets_writable)
next
  assume g: "gets (Suc k) self fs = (Inr rids, self1, fs1)"
  from g assms have rids: "rids = map (\<lambda>j. next_rid self + int j) [0..<Suc k]"
    and fs1: "fs1 = fs\<lparr>cache := Text (py_str (next_rid self + int (Suc k) - 1) @ [CHR 0x0A])\<rparr>"
    by (simp_all add: gets_writable del: gets.simps upt_Suc)
  from rids have l: "last rids = next_rid self + int (Suc k) - 1"
    by simp
  show "RIDCounter_init fs1 = (Inr \<lparr>next_rid = last rids + 1\<rparr>, fs1)"
    unfolding fs1 l by (rule RIDCounter_init_from_cache)
  from assms have "cache_writable fs1" by (simp add: fs1)
  then show "fst (gets m \<lparr>next_rid = last rids + 1\<rparr> fs1) =
          Inr (map (\<lambda>j. last rids + 1 + int j) [0..<m])"
    by (simp add: gets_writable)
qed

text \<open>
  The theorem on \<open>fresh_fs\<close>: three calls return 0, 1, 2 and leave \<^verbatim>\<open>"2\n"\<close> in the
  cache; the counter rebuilt from it returns 3 and 4.
\<close>

theorem C2_witness:
  "RIDCounter_init fresh_fs =
     (Inr \<lparr>next_rid = 0\<rparr>, fresh_fs\<lparr>cache := Text (py_str (- 1) @ [CHR 0x0A])\<rparr>) \<and>
   gets 3 \<lparr>next_rid = 0\<rparr> (fresh_fs\<lparr>cache := Text (py_str (- 1) @ [CHR 0x0A])\<rparr>) =
     (Inr [0, 1, 2], \<lparr>next_rid = 3\<rparr>, fresh_fs\<lparr>cache := Text ''2\<newline>''\<rparr>) \<and>
   RIDCounter_init (fresh_fs\<lparr>cache := Text ''2\<newline>''\<rparr>) =
     (Inr \<lparr>next_rid = 3\<rparr>, fresh_fs\<lparr>cache := Text ''2\<newline>''\<rparr>) \<and>
   fst (gets 2 \<lparr>next_rid = 3\<rparr> (fresh_fs\<lparr>cache := Text ''2\<newline>''\<rparr>)) = Inr [3, 4]"
proof -
  let ?fs0 = "fresh_fs\<lparr>cache := Text (py_str (- 1) @ [CHR 0x0A])\<rparr>"
  let ?fs3 = "fresh_fs\<lparr>cache := Text ''2\<newline>''\<rparr>"
  have w: "cache_writable fresh_fs" "cache_writable ?fs0"
    and f: "cache fresh_fs = NoFile \<and> results fresh_fs = None"
    by (simp_all add: fresh_fs_def)
  have s2: "py_str 2 = ''2''" by code_simp
  have g: "gets (Suc 2) \<lparr>next_rid = 0\<rparr> ?fs0 = (Inr [0, 1, 2], \<lparr>next_rid = 3\<rparr>, ?fs3)"
    using w(2) by (simp add: gets_writable s2 upt_rec del: gets.simps)
  have n3: "Suc 2 = 3" "[0..<3] = [0, 1, 2]" "[0..<2] = [0, 1]" by (simp_all add: upt_rec)
  show ?thesis
    using C2_run_ids_in_sequence [OF w(1), of 3 0 _ _ _ _ 0]
      C2_run_ids_in_sequence [OF w(2), of 0 2 "\<lparr>next_rid = 0\<rparr>" "[0, 1, 2]" "\<lparr>next_rid = 3\<rparr>" ?fs3 2]
      f g
    by (simp add: n3 del: gets.simps)
qed

text \<open>
  Claim C3, as amended. When the cache file is absent (and can be created), the
  counter recovers the last id by scanning the tree
  \<^verbatim>\<open><root>/<YYYY-MM-DD>/<HH-MM>/<9 digits>-<name>.h5\<close>: it takes the maximum of the
  nine-digit numbers over the entries matching that pattern, with the extension
  \<^verbatim>\<open>h5\<close> and a name free of newlines, and ignores every other entry; the value is
  written to the cache and the next id allocated is one more.
\<close>

theorem C3_recovery_scans_results:
  assumes "cache fs = NoFile" and "cache_writable fs"
  shows "last_rid_from_results fs = Inr (max_rid h5_pattern (results fs)) \<and>
         RIDCounter_init fs =
           (Inr \<lparr>next_rid = max_rid h5_pattern (results fs) + 1\<rparr>,
            fs\<lparr>cache := Text (py_str (max_rid h5_pattern (results fs)) @ [CHR 0x0A])\<rparr>) \<and>
         fst (RIDCounter_get \<lparr>next_rid = max_rid h5_pattern (results fs) + 1\<rparr>
                (fs\<lparr>cache := Text (py_str (max_rid h5_pattern (results fs)) @ [CHR 0x0A])\<rparr>)) =
           Inr (max_rid h5_pattern (results fs) + 1)"
  using assms
  by (simp add: last_rid_from_results_max RIDCounter_init_no_cache RIDCounter_get_writable)

text \<open>The ids found in \<open>sample_tree\<close>.\<close>

lemma sample_tree_rids: "tree_rids h5_pattern (Some sample_tree) = [3, 7]"
  by code_simp

lemma sample_max_rid: "max_rid h5_pattern (Some sample_tree) = 7"
  by (simp add: max_rid_def sample_tree_rids)

text \<open>
  The theorem on \<open>sample_fs\<close>, whose tree holds \<^verbatim>\<open>000000007-foo.h5\<close>: the next id
  is 8.
\<close>

theorem C3_witness:
  "last_rid_from_results sample_fs = Inr 7 \<and>
   RIDCounter_init sample_fs =
     (Inr \<lparr>next_rid = 8\<rparr>, sample_fs\<lparr>cache := Text ''7\<newline>''\<rparr>) \<and>
   fst (RIDCounter_get \<lparr>next_rid = 8\<rparr> (sample_fs\<lparr>cache := Text ''7\<newline>''\<rparr>)) = Inr 8"
proof -
  have a: "cache sample_fs = NoFile" "cache_writable sample_fs"
    "results sample_fs = Some sample_tree"
    by (simp_all add: sample_fs_def)
  have s7: "py_str 7 = ''7''" by code_simp
  show ?thesis
    using C3_recovery_scans_results [OF a(1) a(2)]
    by (simp add: a(3) sample_max_rid s7)
qed

text \<open>
  Claim C3 as stated fails on \<open>txt_fs\<close>: the entry \<^verbatim>\<open>000000009-foo.txt\<close> matches
  the layout \<^verbatim>\<open><9-digit-zero-padded-RID>-<name>.<ext>\<close>, so the maximum over the
  matching entries is 9, but the scan ignores it and the counter starts at 0.
\<close>

theorem C3_counterexample:
  "fullmatch any_ext_pattern ''000000009-foo.txt'' \<and>
   max_rid any_ext_pattern (results txt_fs) = 9 \<and>
   last_rid_from_results txt_fs = Inr (- 1) \<and>
   fst (RIDCounter_init txt_fs) = Inr \<lparr>next_rid = 0\<rparr>"
  by code_simp

text \<open>
  Claim C4. The scan of the results tree never raises: whatever in the tree cannot be
  listed counts as an empty directory (\<open>names_in\<close>) and the scan goes on. If the
  results directory itself is missing or unreadable the last id is \<open>-1\<close>; and if
  moreover the cache file is absent (and can be created), building the counter
  succeeds and the first id allocated is 0.
\<close>

theorem C4_recovery_never_raises:
  "(\<exists>r. last_rid_from_results fs = Inr r) \<and>
   last_rid_from_results fs = Inr (max_rid h5_pattern (results fs)) \<and>
   (listdir (results fs) = Inl e \<longrightarrow> last_rid_from_results fs = Inr (- 1)) \<and>
   (listdir (results fs) = Inl e \<and> cache fs = NoFile \<and> cache_writable fs \<longrightarrow>
      RIDCounter_init fs =
        (Inr \<lparr>next_rid = 0\<rparr>, fs\<lparr>cache := Text (py_str (- 1) @ [CHR 0x0A])\<rparr>) \<and>
      fst (RIDCounter_get \<lparr>next_rid = 0\<rparr> (fs\<lparr>cache := Text (py_str (- 1) @ [CHR 0x0A])\<rparr>)) =
        Inr 0)"
  by (simp add: last_rid_from_results_max max_rid_unlistable RIDCounter_init_no_cache
      RIDCounter_get_writable)

text \<open>
  The theorem on a missing and on an unreadable results directory, and on
  \<open>sample_fs\<close>, where one day directory cannot be read and one minute entry is a
  plain file.
\<close>

theorem C4_witness:
  "last_rid_from_results fresh_fs = Inr (- 1) \<and>
   fst (RIDCounter_init fresh_fs) = Inr \<lparr>next_rid = 0\<rparr> \<and>
   last_rid_from_results locked_fs = Inr (- 1) \<and>
   fst (RIDCounter_init locked_fs) = Inr \<lparr>next_rid = 0\<rparr> \<and>
   fst (RIDCounter_get \<lparr>next_rid = 0\<rparr>
          (locked_fs\<lparr>cache := Text (py_str (- 1) @ [CHR 0x0A])\<rparr>)) = Inr 0 \<and>
   child (results sample_fs) ''2016-05-03'' = Some Locked \<and>
   last_rid_from_results sample_fs = Inr 7"
proof -
  have a: "listdir (results fresh_fs) = Inl FileNotFoundError"
    "cache fresh_fs = NoFile" "cache_writable fresh_fs"
    by (simp_all add: fresh_fs_def)
  have b: "listdir (results locked_fs) = Inl OSError"
    "cache locked_fs = NoFile" "cache_writable locked_fs"
    by (simp_all add: locked_fs_def)
  have c: "results sample_fs = Some sample_tree"
    "child (Some sample_tree) ''2016-05-03'' = Some Locked"
    by (simp_all add: sample_fs_def sample_tree_def)
  show ?thesis
    using C4_recovery_never_raises [of fresh_fs FileNotFoundError]
      C4_recovery_never_raises [of locked_fs OSError]
      C4_recovery_never_raises [of sample_fs OSError] a b
    by (simp add: c sample_max_rid max_rid_unlistable [OF a(1)] max_rid_unlistable [OF b(1)])
qed

section \<open>Properties of the device manager\<close>

text \<open>The sample run builds four devices; the virtual device is not among them.\<close>

lemma sample_run:
  "get_all (DeviceManager_init sample_ddb sample_virtual) sample_world sample_names =
     Some (\<lparr>ddb = sample_ddb, virtual_devices = sample_virtual,
            active_devices = [(''core'', core_dev), (''dds'', dds_dev), (''table'', table_dev),
                              (''attenuator'', lda_dev)]\<rparr>,
           sample_world\<lparr>calls := [Created core_dev, Created dds_dev, Created table_dev,
                                   Created lda_dev]\<rparr>)"
  by (simp add: sample_names_def DeviceManager_init_def DeviceManager_get_def sample_virtual_def
      sample_ddb_def ddb_get_def follow_aliases.simps create_device_def sample_world_def
      core_dev_def dds_dev_def table_dev_def lda_dev_def Let_def)


text \<open>
  The active devices, in insertion order, are the devices built, in order of
  creation: each call of \<^verbatim>\<open>get\<close> keeps this.
\<close>

lemma created_append: "created (xs @ ys) = created xs @ created ys"
  by (induction xs rule: created.induct) auto

lemma closed_append: "closed (xs @ ys) = closed xs @ closed ys"
  by (induction xs rule: closed.induct) auto

lemma created_close_calls: "created (map CloseCalled devs) = []"
  by (induction devs) auto

lemma closed_close_calls: "closed (map CloseCalled devs) = devs"
  by (induction devs) auto

lemma odict_set_new: "map_of kvs k = None \<Longrightarrow> odict_set kvs k v = kvs @ [(k, v)]"
  by (induction kvs k v rule: odict_set.induct) (auto split: if_splits)

lemma create_device_calls:
  "create_device w d = (r, w1) \<Longrightarrow>
   (case r of Inl e \<Rightarrow> calls w1 = calls w | Inr dev \<Rightarrow> calls w1 = calls w @ [Created dev])"
  by (auto simp: create_device_def Let_def split: descriptor.splits sum.splits)

lemma get_keeps_order:
  assumes "DeviceManager_get self w name = Some (r, self1, w1)"
      and "created (calls w) = map snd (active_devices self)"
  shows "created (calls w1) = map snd (active_devices self1) \<and> closed (calls w1) = closed (calls w)"
proof (cases "virtual_devices self name")
  case (Some dev)
  with assms show ?thesis by (simp add: DeviceManager_get_def)
next
  case None
  note virt = this
  show ?thesis
  proof (cases "map_of (active_devices self) name")
    case (Some dev)
    with assms virt show ?thesis by (simp add: DeviceManager_get_def)
  next
    case None
    note act = this
    show ?thesis
    proof (cases "ddb_get (ddb self) name")
      case (Inl e)
      with assms virt act show ?thesis by (simp add: DeviceManager_get_def)
    next
      case (Inr desc)
      note desc = this
      show ?thesis
      proof (cases "follow_aliases (ddb self) desc")
        case None
        with assms virt act desc show ?thesis by (simp add: DeviceManager_get_def)
      next
        case (Some res)
        note res = this
        show ?thesis
        proof (cases res)
          case (Inl e)
          with assms virt act desc res show ?thesis by (simp add: DeviceManager_get_def)
        next
          case (Inr d)
          obtain r' w' where cd: "create_device w d = (r', w')" by (cases "create_device w d")
          show ?thesis
          proof (cases r')
            case (Inl e)
            with create_device_calls [OF cd] have "calls w' = calls w" by simp
            with assms virt act desc res Inr cd Inl show ?thesis
              by (auto simp: DeviceManager_get_def)
          next
            case (Inr dev)
            with create_device_calls [OF cd] have "calls w' = calls w @ [Created dev]" by simp
            with assms virt act desc res \<open>res = Inr d\<close> cd Inr show ?thesis
              by (auto simp: DeviceManager_get_def odict_set_new created_append closed_append)
          qed
        qed
      qed
    qed
  qed
qed

lemma get_all_keeps_order:
  "get_all self w names = Some (self1, w1) \<Longrightarrow>
   created (calls w) = map snd (active_devices self) \<Longrightarrow>
   created (calls w1) = map snd (active_devices self1) \<and> closed (calls w1) = closed (calls w)"
proof (induction names arbitrary: self w)
  case Nil
  then show ?case by simp
next
  case (Cons name names)
  from Cons.prems(1) obtain r self' w' where
    g: "DeviceManager_get self w name = Some (r, self', w')" and
    rest: "get_all self' w' names = Some (self1, w1)"
    by (auto split: option.splits)
  from get_keeps_order [OF g Cons.prems(2)] Cons.IH [OF rest] show ?case by simp
qed

text \<open>The loop of \<^verbatim>\<open>close_devices\<close>.\<close>

lemma close_loop_caught:
  "\<forall>dev\<in>set devs. caught dev \<Longrightarrow>
   close_loop devs log = (True, log @ map CloseCalled (filter has_closing_call devs))"
proof (induction devs arbitrary: log)
  case Nil
  then show ?case by simp
next
  case (Cons dev devs)
  then show ?case
    by (cases "closing_call dev")
       (auto simp: caught_def has_closing_call_def split: close_result.splits)
qed

lemma close_loop_interrupted:
  "closing_call dev = Some RaisesBaseException \<Longrightarrow>
   close_loop (dev # devs) log = (False, log @ [CloseCalled dev])"
  by simp

text \<open>
  Claim C5, as amended. After any sequence of calls of \<^verbatim>\<open>get\<close> on a new manager,
  and provided that no closing operation raises an exception outside class
  \<^verbatim>\<open>Exception\<close>: \<^verbatim>\<open>close_devices\<close> calls the closing operation of the devices that
  were built and have one, in exactly the reverse order of their creation, virtual
  devices not being among them; an exception of class \<^verbatim>\<open>Exception\<close> raised by one of
  these calls is caught and the remaining devices are still closed; and the method
  returns with the set of active devices empty, whichever calls failed.
\<close>

theorem C5_close_in_reverse_order:
  assumes "get_all (DeviceManager_init db vd) w0 names = Some (mgr, w1)"
      and "calls w0 = []"
      and "\<forall>dev\<in>set (created (calls w1)). caught dev"
  shows "\<exists>w2. close_devices mgr w1 = (True, mgr\<lparr>active_devices := []\<rparr>, w2) \<and>
              closed (calls w2) = rev (filter has_closing_call (created (calls w1))) \<and>
              created (calls w2) = created (calls w1)"
proof -
  have "created (calls w0) = map snd (active_devices (DeviceManager_init db vd))"
    using assms(2) by (simp add: DeviceManager_init_def)
  from get_all_keeps_order [OF assms(1) this] assms(2)
  have act: "map snd (active_devices mgr) = created (calls w1)" and nc: "closed (calls w1) = []"
    by simp_all
  from assms(3) have "\<forall>dev\<in>set (rev (created (calls w1))). caught dev" by simp
  from close_loop_caught [OF this]
  have "close_loop (rev (map snd (active_devices mgr))) (calls w1) =
          (True, calls w1 @ map CloseCalled (filter has_closing_call (rev (created (calls w1)))))"
    by (simp add: act)
  then show ?thesis
    by (simp add: close_devices_def closed_append created_append closed_close_calls
        created_close_calls nc rev_filter)
qed

text \<open>
  The theorem on the sample run: the controller is closed first, then \<^verbatim>\<open>dds\<close>,
  whose closing raises, then \<^verbatim>\<open>core\<close>.
\<close>

theorem C5_witness:
  "close_devices
     \<lparr>ddb = sample_ddb, virtual_devices = sample_virtual,
      active_devices = [(''core'', core_dev), (''dds'', dds_dev), (''table'', table_dev),
                        (''attenuator'', lda_dev)]\<rparr>
     (sample_world\<lparr>calls := [Created core_dev, Created dds_dev, Created table_dev,
                             Created lda_dev]\<rparr>) =
   (True,
    \<lparr>ddb = sample_ddb, virtual_devices = sample_virtual, active_devices = []\<rparr>,
    sample_world\<lparr>calls := [Created core_dev, Created dds_dev, Created table_dev,
                            Created lda_dev, CloseCalled lda_dev, CloseCalled dds_dev,
                            CloseCalled core_dev]\<rparr>) \<and>
   closing_call dds_dev = Some RaisesException"
proof -
  let ?w1 = "sample_world\<lparr>calls := [Created core_dev, Created dds_dev, Created table_dev,
                                    Created lda_dev]\<rparr>"
  have c: "calls sample_world = []" by (simp add: sample_world_def)
  have k: "\<forall>dev\<in>set (created (calls ?w1)). caught dev"
    by (simp add: caught_def core_dev_def dds_dev_def table_dev_def lda_dev_def)
  have f: "filter has_closing_call (created (calls ?w1)) = [core_dev, dds_dev, lda_dev]"
    by (simp add: has_closing_call_def core_dev_def dds_dev_def table_dev_def lda_dev_def)
  from C5_close_in_reverse_order [OF sample_run c k] obtain w2 where
    w2: "close_devices
           \<lparr>ddb = sample_ddb, virtual_devices = sample_virtual,
            active_devices = [(''core'', core_dev), (''dds'', dds_dev), (''table'', table_dev),
                              (''attenuator'', lda_dev)]\<rparr> ?w1 =
         (True, \<lparr>ddb = sample_ddb, virtual_devices = sample_virtual, active_devices = []\<rparr>, w2)"
    and cl: "closed (calls w2) = rev (filter has_closing_call (created (calls ?w1)))"
    by auto
  have "w2 = sample_world\<lparr>calls := [Created core_dev, Created dds_dev, Created table_dev,
                            Created lda_dev, CloseCalled lda_dev, CloseCalled dds_dev,
                            CloseCalled core_dev]\<rparr>"
    using w2
    by (simp add: close_devices_def core_dev_def dds_dev_def table_dev_def lda_dev_def)
  with w2 show ?thesis by (simp add: dds_dev_def)
qed

text \<open>
  Claim C5 as stated fails on the run that requests \<^verbatim>\<open>core\<close> and then
  \<^verbatim>\<open>shutter\<close>: closing \<^verbatim>\<open>shutter\<close> raises an exception that
  \<^verbatim>\<open>except Exception\<close> does not catch, \<^verbatim>\<open>close_devices\<close> is left at once, the
  closing operation of \<^verbatim>\<open>core\<close> is never called and the active devices are still
  the two that were built.
\<close>

theorem C5_counterexample:
  "get_all (DeviceManager_init sample_ddb sample_virtual) sample_world [''core'', ''shutter''] =
     Some (interrupted_manager, interrupted_world) \<and>
   closing_call core_dev = Some Returns \<and>
   close_devices interrupted_manager interrupted_world =
     (False, interrupted_manager,
      interrupted_world\<lparr>calls := [Created core_dev, Created shutter_dev,
                                    CloseCalled shutter_dev]\<rparr>) \<and>
   active_devices interrupted_manager = [(''core'', core_dev), (''shutter'', shutter_dev)]"
  by (simp add: DeviceManager_init_def DeviceManager_get_def sample_virtual_def
      sample_ddb_def ddb_get_def follow_aliases.simps create_device_def sample_world_def
      core_dev_def shutter_dev_def interrupted_manager_def interrupted_world_def
      close_devices_def Let_def)

end
